theory Spec2Isabelle
  imports Complex_Main "HOL-Library.Word"
begin

unbundle bit_operations_syntax

section \<open>Data model\<close>

text \<open>
  The ticket identifier is a \<^verbatim>\<open>uuid.UUID\<close>, sixteen bytes.  It is read here as one
  128-bit word, most significant byte first, so that the unsigned order on words is the
  byte-wise order that \<^verbatim>\<open>ORDER BY id ASC\<close> uses on a \<^verbatim>\<open>UUID\<close> column.
\<close>

type_synonym uuid = "128 word"

definition hex_digit :: "nat \<Rightarrow> char" where
  "hex_digit n = ''0123456789abcdef'' ! (n mod 16)"

definition uuid_bytes :: "uuid \<Rightarrow> nat list" where
  "uuid_bytes u = map (\<lambda>i. unat (take_bit 8 (drop_bit (8 * (15 - i)) u))) [0..<16]"

definition encodeHex :: "nat list \<Rightarrow> string" where
  "encodeHex bs = concat (map (\<lambda>b. [hex_digit (b div 16), hex_digit (b mod 16)]) bs)"

text \<open>\<^verbatim>\<open>UUID.String()\<close>: the form xxxxxxxx-xxxx-xxxx-xxxx-xxxxxxxxxxxx in lower-case hex.\<close>

definition uuid_String :: "uuid \<Rightarrow> string" where
  "uuid_String u =
     (let h = encodeHex (uuid_bytes u)
      in take 8 h @ ''-'' @ take 4 (drop 8 h) @ ''-'' @ take 4 (drop 12 h) @ ''-'' @
         take 4 (drop 16 h) @ ''-'' @ drop 20 h)"

text \<open>
  \<^verbatim>\<open>decimal.Decimal\<close> is a coefficient (a big integer) and a power of ten.  The library
  panics in \<^verbatim>\<open>Mul\<close> when the sum of the exponents leaves the int32 range; in
  \<^verbatim>\<open>CreateOrder\<close> the first factor comes from \<^verbatim>\<open>NewFromInt\<close> and has exponent 0, so the
  sum is the exponent of the session price.
\<close>

record Decimal =
  dvalue :: int
  dexp :: int

definition NewFromInt :: "int \<Rightarrow> Decimal" where
  "NewFromInt v = \<lparr>dvalue = v, dexp = 0\<rparr>"

definition Mul :: "Decimal \<Rightarrow> Decimal \<Rightarrow> Decimal" where
  "Mul d d2 = \<lparr>dvalue = dvalue d * dvalue d2, dexp = dexp d + dexp d2\<rparr>"

text \<open>The number a decimal stands for.\<close>

definition Decimal_val :: "Decimal \<Rightarrow> rat" where
  "Decimal_val d =
     (if 0 \<le> dexp d then of_int (dvalue d) * 10 ^ nat (dexp d)
      else of_int (dvalue d) / 10 ^ nat (- dexp d))"

text \<open>
  A \<^verbatim>\<open>float64\<close> is a mantissa times a power of two, an infinity or a NaN.  The conversion
  \<^verbatim>\<open>Decimal.InexactFloat64\<close> belongs to the decimal library and is a parameter of the handler.
\<close>

datatype float64 = Finite int int | PosInf | NegInf | NaN

fun float64_val :: "float64 \<Rightarrow> rat option" where
  "float64_val (Finite m e) =
     Some (if 0 \<le> e then of_int m * 2 ^ nat e else of_int m / 2 ^ nat (- e))"
| "float64_val PosInf = None"
| "float64_val NegInf = None"
| "float64_val NaN = None"

text \<open>models/domain: \<^verbatim>\<open>Ticket\<close>, \<^verbatim>\<open>Order\<close> (its \<^verbatim>\<open>Items\<close> are never set on this path and
  are no column of the table), \<^verbatim>\<open>ConcertSession\<close>; models/db: \<^verbatim>\<open>ConcertSession\<close>.\<close>

record Ticket =
  ID :: uuid
  SessionID :: int
  Status :: string

record Order =
  Order_ID :: int
  Order_CreatedAt :: int
  Order_Status :: string
  Order_TotalPrice :: Decimal

record db_ConcertSession =
  db_ID :: int
  db_ConcertID :: int
  db_StartTime :: int
  db_EndTime :: int
  db_Venue :: string
  db_NumberOfSeats :: int
  db_Price :: Decimal

record ConcertSession =
  cs_ID :: int
  cs_ConcertID :: int
  cs_StartTime :: int
  cs_EndTime :: int
  cs_Venue :: string
  cs_Price :: Decimal

definition ToConcertSession :: "db_ConcertSession \<Rightarrow> ConcertSession" where
  "ToConcertSession c =
     \<lparr>cs_ID = db_ID c, cs_ConcertID = db_ConcertID c, cs_StartTime = db_StartTime c,
      cs_EndTime = db_EndTime c, cs_Venue = db_Venue c, cs_Price = db_Price c\<rparr>"

section \<open>The store\<close>

text \<open>
  The three tables the order path touches.  A transaction is the list of its writes so
  far; they reach the committed tables at commit, in order.  Statements sent through
  \<^verbatim>\<open>r.db\<close> or \<^verbatim>\<open>r.GetDB()\<close> run on the pool, outside the transaction, and read the
  committed tables.  The journal records every statement with the handle it ran on.
\<close>

record tables =
  concert_sessions :: "db_ConcertSession list"
  tickets :: "Ticket list"
  orders :: "Order list"

datatype tx_write = Insert_order Order | Update_ticket_status uuid string

fun apply_write :: "tx_write \<Rightarrow> tables \<Rightarrow> tables" where
  "apply_write (Insert_order ord) t = t\<lparr>orders := orders t @ [ord]\<rparr>"
| "apply_write (Update_ticket_status i st) t =
     t\<lparr>tickets := map (\<lambda>r. if ID r = i then r\<lparr>Status := st\<rparr> else r) (tickets t)\<rparr>"

datatype handle = Pool | Tx

datatype statement =
    BEGIN
  | SELECT_session handle
  | SELECT_tickets_for_update handle
  | INSERT_order handle
  | UPDATE_ticket handle uuid
  | COMMIT
  | ROLLBACK

record conn =
  committed :: tables
  txn :: "tx_write list option"
  journal :: "statement list"

text \<open>
  What the database decides and the code does not: whether a statement fails (with the
  driver's message), and the defaults of an inserted order row (the next value of the
  \<^verbatim>\<open>SERIAL\<close> id and the clock in milliseconds).
\<close>

record env =
  Beginx_err :: "string option"
  Get_err :: "string option"
  Select_err :: "string option"
  QueryRow_err :: "string option"
  Exec_err :: "uuid \<Rightarrow> string option"
  Commit_err :: "string option"
  serial_id :: int
  now_ms :: int

definition log_stmt :: "statement \<Rightarrow> conn \<Rightarrow> conn" where
  "log_stmt q c = c\<lparr>journal := journal c @ [q]\<rparr>"

definition ErrTxDone :: string where
  "ErrTxDone = ''sql: transaction has already been committed or rolled back''"

definition Beginx :: "env \<Rightarrow> conn \<Rightarrow> string option \<times> conn" where
  "Beginx e c =
     (case Beginx_err e of
        Some m \<Rightarrow> (Some m, log_stmt BEGIN c)
      | None \<Rightarrow> (None, (log_stmt BEGIN c)\<lparr>txn := Some []\<rparr>))"

definition Commit :: "env \<Rightarrow> conn \<Rightarrow> string option \<times> conn" where
  "Commit e c =
     (case txn c of
        None \<Rightarrow> (Some ErrTxDone, log_stmt COMMIT c)
      | Some ws \<Rightarrow>
          (case Commit_err e of
             Some m \<Rightarrow> (Some m, (log_stmt COMMIT c)\<lparr>txn := None\<rparr>)
           | None \<Rightarrow>
               (None, (log_stmt COMMIT c)\<lparr>committed := fold apply_write ws (committed c),
                                            txn := None\<rparr>)))"

definition Rollback :: "conn \<Rightarrow> conn" where
  "Rollback c = (log_stmt ROLLBACK c)\<lparr>txn := None\<rparr>"

section \<open>repository\<close>

text \<open>base\_repository.go, \<^verbatim>\<open>WithTransaction\<close>.  The closure returns its error or the values
  it assigned to the captured variables.\<close>

definition WithTransaction ::
  "env \<Rightarrow> (conn \<Rightarrow> (string + 'a) \<times> conn) \<Rightarrow> conn \<Rightarrow> (string + 'a) \<times> conn" where
  "WithTransaction e fn c =
     (case Beginx e c of
        (Some m, c1) \<Rightarrow> (Inl m, c1)
      | (None, c1) \<Rightarrow>
          (case fn c1 of
             (Inl m, c2) \<Rightarrow> (Inl m, Rollback c2)
           | (Inr v, c2) \<Rightarrow>
               (case Commit e c2 of
                  (Some m, c3) \<Rightarrow> (Inl m, c3)
                | (None, c3) \<Rightarrow> (Inr v, c3))))"

text \<open>concert\_session\_repository.go, \<^verbatim>\<open>GetConcertSessionByID\<close>: \<^verbatim>\<open>r.db.Get\<close>, on the pool;
  \<^verbatim>\<open>sql.ErrNoRows\<close> becomes \<^verbatim>\<open>(nil, nil)\<close>.\<close>

definition GetConcertSessionByID ::
  "env \<Rightarrow> int \<Rightarrow> conn \<Rightarrow> (string + ConcertSession option) \<times> conn" where
  "GetConcertSessionByID e i c =
     (case Get_err e of
        Some m \<Rightarrow> (Inl m, log_stmt (SELECT_session Pool) c)
      | None \<Rightarrow>
          (case find (\<lambda>s. db_ID s = i) (concert_sessions (committed c)) of
             None \<Rightarrow> (Inr None, log_stmt (SELECT_session Pool) c)
           | Some r \<Rightarrow> (Inr (Some (ToConcertSession r)), log_stmt (SELECT_session Pool) c)))"

text \<open>ticket\_repository.go, \<^verbatim>\<open>GetAvailableTicketsBySessionID\<close>: \<^verbatim>\<open>r.GetDB().Select\<close>, on the
  pool.  The rows of the session in state available, ascending by id, at most
  \<^verbatim>\<open>numberOfTickets\<close> of them; PostgreSQL rejects a negative \<^verbatim>\<open>LIMIT\<close>.\<close>

definition available_rows :: "int \<Rightarrow> tables \<Rightarrow> Ticket list" where
  "available_rows sessionID t =
     sort_key ID (filter (\<lambda>r. SessionID r = sessionID \<and> Status r = ''available'') (tickets t))"

definition GetAvailableTicketsBySessionID ::
  "env \<Rightarrow> int \<Rightarrow> int \<Rightarrow> conn \<Rightarrow> (string + Ticket list) \<times> conn" where
  "GetAvailableTicketsBySessionID e sessionID numberOfTickets c =
     (case Select_err e of
        Some m \<Rightarrow> (Inl m, log_stmt (SELECT_tickets_for_update Pool) c)
      | None \<Rightarrow>
          if numberOfTickets < 0
          then (Inl ''pq: LIMIT must not be negative'', log_stmt (SELECT_tickets_for_update Pool) c)
          else (Inr (take (nat numberOfTickets) (available_rows sessionID (committed c))),
                log_stmt (SELECT_tickets_for_update Pool) c))"

text \<open>order\_repository.go, \<^verbatim>\<open>CreateOrder\<close>: \<^verbatim>\<open>tx.QueryRow\<close>, in the transaction.  The
  insert names the columns status and total\_price; id and created\_at are the defaults.
  The returned row is scanned back into the order.\<close>

definition OrderRepository_CreateOrder ::
  "env \<Rightarrow> Order \<Rightarrow> conn \<Rightarrow> (string + Order) \<times> conn" where
  "OrderRepository_CreateOrder e ord c =
     (case txn c of
        None \<Rightarrow> (Inl ErrTxDone, log_stmt (INSERT_order Tx) c)
      | Some ws \<Rightarrow>
          (case QueryRow_err e of
             Some m \<Rightarrow> (Inl m, log_stmt (INSERT_order Tx) c)
           | None \<Rightarrow>
               (let row = \<lparr>Order_ID = serial_id e, Order_CreatedAt = now_ms e,
                           Order_Status = Order_Status ord,
                           Order_TotalPrice = Order_TotalPrice ord\<rparr>
                in (Inr row, (log_stmt (INSERT_order Tx) c)\<lparr>txn := Some (ws @ [Insert_order row])\<rparr>))))"

text \<open>One \<^verbatim>\<open>tx.Exec\<close> of the update statement.  The tickets table has
  \<^verbatim>\<open>CHECK (status IN ('pending', 'sold', 'available'))\<close>, which a row that the update
  reaches must pass; an id with no row updates nothing and is no error.\<close>

definition status_ok :: "string \<Rightarrow> bool" where
  "status_ok st = (st = ''pending'' \<or> st = ''sold'' \<or> st = ''available'')"

definition Exec_update :: "env \<Rightarrow> string \<Rightarrow> uuid \<Rightarrow> conn \<Rightarrow> string option \<times> conn" where
  "Exec_update e st i c =
     (case txn c of
        None \<Rightarrow> (Some ErrTxDone, log_stmt (UPDATE_ticket Tx i) c)
      | Some ws \<Rightarrow>
          (case Exec_err e i of
             Some m \<Rightarrow> (Some m, log_stmt (UPDATE_ticket Tx i) c)
           | None \<Rightarrow>
               if list_ex (\<lambda>r. ID r = i) (tickets (committed c)) \<and> \<not> status_ok st
               then (Some ''pq: new row for relation tickets violates check constraint'',
                     log_stmt (UPDATE_ticket Tx i) c)
               else (None, (log_stmt (UPDATE_ticket Tx i) c)
                             \<lparr>txn := Some (ws @ [Update_ticket_status i st])\<rparr>)))"

text \<open>ticket\_repository.go, \<^verbatim>\<open>UpdateTicketStatuses\<close>: one update per ticket of the slice, in
  order, stopping at the first error.\<close>

fun UpdateTicketStatuses ::
  "env \<Rightarrow> Ticket list \<Rightarrow> string \<Rightarrow> conn \<Rightarrow> string option \<times> conn" where
  "UpdateTicketStatuses e [] st c = (None, c)"
| "UpdateTicketStatuses e (t # ts) st c =
     (case Exec_update e st (ID t) c of
        (Some m, c1) \<Rightarrow> (Some m, c1)
      | (None, c1) \<Rightarrow> UpdateTicketStatuses e ts st c1)"

section \<open>service\<close>

record CreateOrderRequest =
  UserID :: int
  ConcertSessionID :: int
  NumberOfTickets :: int

record CreateOrderResponse =
  OrderID :: int
  resp_Status :: string
  TicketIDs :: "string list"
  TotalPrice :: Decimal
  CreatedAt :: int

text \<open>order\_service.go, the closure that \<^verbatim>\<open>CreateOrder\<close> hands to \<^verbatim>\<open>WithTransaction\<close>.  On
  success it has assigned \<^verbatim>\<open>order\<close> and \<^verbatim>\<open>tickets\<close>.\<close>

definition CreateOrder_fn ::
  "env \<Rightarrow> CreateOrderRequest \<Rightarrow> conn \<Rightarrow> (string + Order \<times> Ticket list) \<times> conn" where
  "CreateOrder_fn e req c =
     (case GetConcertSessionByID e (ConcertSessionID req) c of
        (Inl m, c1) \<Rightarrow> (Inl m, c1)
      | (Inr None, c1) \<Rightarrow> (Inl ''concert session not found'', c1)
      | (Inr (Some concertSession), c1) \<Rightarrow>
          (case GetAvailableTicketsBySessionID e (ConcertSessionID req) (NumberOfTickets req) c1 of
             (Inl m, c2) \<Rightarrow> (Inl m, c2)
           | (Inr tks, c2) \<Rightarrow>
               if length tks = 0 then (Inl ''no tickets available'', c2)
               else
                 (case OrderRepository_CreateOrder e
                         \<lparr>Order_ID = 0, Order_CreatedAt = 0, Order_Status = ''pending'',
                          Order_TotalPrice =
                            Mul (NewFromInt (int (length tks))) (cs_Price concertSession)\<rparr> c2 of
                    (Inl m, c3) \<Rightarrow> (Inl m, c3)
                  | (Inr ord, c3) \<Rightarrow>
                      (case UpdateTicketStatuses e tks ''pending'' c3 of
                         (Some m, c4) \<Rightarrow> (Inl m, c4)
                       | (None, c4) \<Rightarrow> (Inr (ord, tks), c4)))))"

text \<open>order\_service.go, \<^verbatim>\<open>CreateOrder\<close>.  A nil request is \<open>None\<close>.\<close>

definition CreateOrder ::
  "env \<Rightarrow> CreateOrderRequest option \<Rightarrow> conn \<Rightarrow> (string + CreateOrderResponse) \<times> conn" where
  "CreateOrder e r c =
     (case r of
        None \<Rightarrow> (Inl ''request cannot be nil'', c)
      | Some req \<Rightarrow>
          if NumberOfTickets req \<le> 0 then (Inl ''number of tickets must be greater than 0'', c)
          else if NumberOfTickets req > 3 then (Inl ''maximum 3 tickets allowed per order'', c)
          else
            (case WithTransaction e (CreateOrder_fn e req) c of
               (Inl m, c1) \<Rightarrow> (Inl m, c1)
             | (Inr (ord, tks), c1) \<Rightarrow>
                 (Inr \<lparr>OrderID = Order_ID ord, resp_Status = Order_Status ord,
                       TicketIDs = map (\<lambda>t. uuid_String (ID t)) tks,
                       TotalPrice = Order_TotalPrice ord,
                       CreatedAt = Order_CreatedAt ord\<rparr>, c1)))"

section \<open>handler\<close>

datatype codes = InvalidArgument | NotFound | ResourceExhausted | Internal | Unimplemented

record api_CreateOrderRequest =
  UserId :: "32 word"
  ConcertSessionId :: "32 word"
  api_NumberOfTickets :: "32 word"

record Timestamp =
  Seconds :: int
  Nanos :: int

record api_CreateOrderResponse =
  OrderId :: "32 word"
  api_Status :: string
  TicketIds :: "string list"
  api_TotalPrice :: float64
  api_CreatedAt :: Timestamp

text \<open>Go's integer division rounds towards zero.\<close>

definition go_div :: "int \<Rightarrow> int \<Rightarrow> int" where
  "go_div a b = sgn a * sgn b * (\<bar>a\<bar> div \<bar>b\<bar>)"

text \<open>The switch on \<^verbatim>\<open>err.Error()\<close>.\<close>

definition status_of_error :: "string \<Rightarrow> codes \<times> string" where
  "status_of_error m =
     (if m = ''concert session not found'' then (NotFound, ''concert session not found'')
      else if m = ''no tickets available'' then (ResourceExhausted, ''no tickets available'')
      else if m = ''request cannot be nil'' then (InvalidArgument, ''request cannot be nil'')
      else if m = ''number of tickets must be greater than 0''
        then (InvalidArgument, ''number_of_tickets must be positive'')
      else if m = ''maximum 3 tickets allowed per order''
        then (InvalidArgument, ''maximum 3 tickets allowed per order'')
      else (Internal, ''failed to create order: '' @ m))"

text \<open>grpc\_handler.go, \<^verbatim>\<open>CreateOrder\<close>.  The request fields are int32 and are read as signed;
  the log lines are not part of the result.\<close>

definition GRPCHandler_CreateOrder ::
  "(Decimal \<Rightarrow> float64) \<Rightarrow> env \<Rightarrow> api_CreateOrderRequest \<Rightarrow> conn \<Rightarrow>
     (codes \<times> string + api_CreateOrderResponse) \<times> conn" where
  "GRPCHandler_CreateOrder InexactFloat64 e req c =
     (if sint (UserId req) \<le> 0 then (Inl (InvalidArgument, ''user_id must be positive''), c)
      else if sint (ConcertSessionId req) \<le> 0
        then (Inl (InvalidArgument, ''concert_session_id must be positive''), c)
      else if sint (api_NumberOfTickets req) \<le> 0
        then (Inl (InvalidArgument, ''number_of_tickets must be positive''), c)
      else if sint (api_NumberOfTickets req) > 3
        then (Inl (InvalidArgument, ''maximum 3 tickets allowed per order''), c)
      else
        (case CreateOrder e
                (Some \<lparr>UserID = sint (UserId req),
                       ConcertSessionID = sint (ConcertSessionId req),
                       NumberOfTickets = sint (api_NumberOfTickets req)\<rparr>) c of
           (Inl m, c1) \<Rightarrow> (Inl (status_of_error m), c1)
         | (Inr r, c1) \<Rightarrow>
             (Inr \<lparr>OrderId = word_of_int (OrderID r), api_Status = resp_Status r,
                   TicketIds = TicketIDs r,
                   api_TotalPrice = InexactFloat64 (TotalPrice r),
                   api_CreatedAt = \<lparr>Seconds = go_div (CreatedAt r) 1000, Nanos = 0\<rparr>\<rparr>, c1)))"

section \<open>Concurrent callers\<close>

text \<open>
  Several goroutines call \<^verbatim>\<open>CreateOrder\<close> on one database.  Each caller sends the
  statements of \<^verbatim>\<open>CreateOrder\<close> in the order of the code; between two statements of one
  caller the others may send theirs.  A caller is at one of these points: before
  \<^verbatim>\<open>Beginx\<close>, before the session lookup, before the ticket selection, before the insert,
  before \<^verbatim>\<open>UpdateTicketStatuses\<close>, before the commit, or returned.  A failing step
  includes the deferred rollback.
\<close>

datatype pc =
    At_start
  | At_session
  | At_select ConcertSession
  | At_insert ConcertSession "Ticket list"
  | At_update Order "Ticket list"
  | At_commit Order "Ticket list"
  | Done "string + CreateOrderResponse"

fun proc_step :: "env \<Rightarrow> CreateOrderRequest \<Rightarrow> pc \<Rightarrow> conn \<Rightarrow> pc \<times> conn" where
  "proc_step e req At_start c =
     (if NumberOfTickets req \<le> 0 then (Done (Inl ''number of tickets must be greater than 0''), c)
      else if NumberOfTickets req > 3 then (Done (Inl ''maximum 3 tickets allowed per order''), c)
      else
        (case Beginx e c of
           (Some m, c1) \<Rightarrow> (Done (Inl m), c1)
         | (None, c1) \<Rightarrow> (At_session, c1)))"
| "proc_step e req At_session c =
     (case GetConcertSessionByID e (ConcertSessionID req) c of
        (Inl m, c1) \<Rightarrow> (Done (Inl m), Rollback c1)
      | (Inr None, c1) \<Rightarrow> (Done (Inl ''concert session not found''), Rollback c1)
      | (Inr (Some concertSession), c1) \<Rightarrow> (At_select concertSession, c1))"
| "proc_step e req (At_select concertSession) c =
     (case GetAvailableTicketsBySessionID e (ConcertSessionID req) (NumberOfTickets req) c of
        (Inl m, c1) \<Rightarrow> (Done (Inl m), Rollback c1)
      | (Inr tks, c1) \<Rightarrow>
          if length tks = 0 then (Done (Inl ''no tickets available''), Rollback c1)
          else (At_insert concertSession tks, c1))"
| "proc_step e req (At_insert concertSession tks) c =
     (case OrderRepository_CreateOrder e
             \<lparr>Order_ID = 0, Order_CreatedAt = 0, Order_Status = ''pending'',
              Order_TotalPrice =
                Mul (NewFromInt (int (length tks))) (cs_Price concertSession)\<rparr> c of
        (Inl m, c1) \<Rightarrow> (Done (Inl m), Rollback c1)
      | (Inr ord, c1) \<Rightarrow> (At_update ord tks, c1))"
| "proc_step e req (At_update ord tks) c =
     (case UpdateTicketStatuses e tks ''pending'' c of
        (Some m, c1) \<Rightarrow> (Done (Inl m), Rollback c1)
      | (None, c1) \<Rightarrow> (At_commit ord tks, c1))"
| "proc_step e req (At_commit ord tks) c =
     (case Commit e c of
        (Some m, c1) \<Rightarrow> (Done (Inl m), c1)
      | (None, c1) \<Rightarrow>
          (Done (Inr \<lparr>OrderID = Order_ID ord, resp_Status = Order_Status ord,
                      TicketIDs = map (\<lambda>t. uuid_String (ID t)) tks,
                      TotalPrice = Order_TotalPrice ord,
                      CreatedAt = Order_CreatedAt ord\<rparr>), c1))"
| "proc_step e req (Done r) c = (Done r, c)"

fun proc_run :: "nat \<Rightarrow> env \<Rightarrow> CreateOrderRequest \<Rightarrow> pc \<times> conn \<Rightarrow> pc \<times> conn" where
  "proc_run 0 e req x = x"
| "proc_run (Suc n) e req x = proc_run n e req (proc_step e req (fst x) (snd x))"

text \<open>
  The callers share the committed tables; each has its own transaction and journal.  An
  update inside a transaction holds the lock of its row until the transaction ends.  A
  statement that needs a row locked by another caller's open transaction waits: the
  caller's step changes nothing.  The selection \<^verbatim>\<open>FOR UPDATE\<close> runs on the pool, each
  statement its own transaction, so its locks end with the statement.
\<close>

record caller =
  c_env :: env
  c_req :: CreateOrderRequest
  c_pc :: pc
  c_txn :: "tx_write list option"
  c_journal :: "statement list"

record world =
  w_committed :: tables
  callers :: "caller list"

fun write_locks :: "tx_write \<Rightarrow> uuid list" where
  "write_locks (Insert_order ord) = []"
| "write_locks (Update_ticket_status i st) = [i]"

definition row_locks :: "caller \<Rightarrow> uuid list" where
  "row_locks p = (case c_txn p of None \<Rightarrow> [] | Some ws \<Rightarrow> concat (map write_locks ws))"

fun wanted_rows :: "CreateOrderRequest \<Rightarrow> pc \<Rightarrow> tables \<Rightarrow> uuid list" where
  "wanted_rows req (At_select concertSession) t =
     map ID (take (nat (NumberOfTickets req)) (available_rows (ConcertSessionID req) t))"
| "wanted_rows req (At_update ord tks) t = map ID tks"
| "wanted_rows req _ t = []"

definition blocked :: "nat \<Rightarrow> world \<Rightarrow> bool" where
  "blocked k w =
     list_ex (\<lambda>j. j \<noteq> k \<and>
                list_ex (\<lambda>i. i \<in> set (row_locks (callers w ! j)))
                  (wanted_rows (c_req (callers w ! k)) (c_pc (callers w ! k)) (w_committed w)))
       [0..<length (callers w)]"

definition step :: "nat \<Rightarrow> world \<Rightarrow> world" where
  "step k w =
     (if length (callers w) \<le> k \<or> blocked k w then w
      else
        (let p = callers w ! k;
             x = proc_step (c_env p) (c_req p) (c_pc p)
                   \<lparr>committed = w_committed w, txn = c_txn p, journal = c_journal p\<rparr>
         in \<lparr>w_committed = committed (snd x),
             callers = (callers w)[k := p\<lparr>c_pc := fst x, c_txn := txn (snd x),
                                         c_journal := journal (snd x)\<rparr>]\<rparr>))"

fun run :: "nat list \<Rightarrow> world \<Rightarrow> world" where
  "run [] w = w"
| "run (k # ks) w = run ks (step k w)"

section \<open>A small database\<close>

text \<open>One session at 99.99 a ticket with three tickets, two of them available; a database
  that does not fail.\<close>

definition ex_env :: env where
  "ex_env =
     \<lparr>Beginx_err = None, Get_err = None, Select_err = None, QueryRow_err = None,
      Exec_err = (\<lambda>i. None), Commit_err = None, serial_id = 1, now_ms = 1700000000123\<rparr>"

definition ex_session :: db_ConcertSession where
  "ex_session =
     \<lparr>db_ID = 1, db_ConcertID = 1, db_StartTime = 1735675200000, db_EndTime = 1735686000000,
      db_Venue = ''Main Arena'', db_NumberOfSeats = 3,
      db_Price = \<lparr>dvalue = 9999, dexp = - 2\<rparr>\<rparr>"

definition ex_ticket :: "uuid \<Rightarrow> string \<Rightarrow> Ticket" where
  "ex_ticket i st = \<lparr>ID = i, SessionID = 1, Status = st\<rparr>"

definition ex_tables :: tables where
  "ex_tables =
     \<lparr>concert_sessions = [ex_session],
      tickets = [ex_ticket 3 ''available'', ex_ticket 1 ''pending'', ex_ticket 2 ''available''],
      orders = []\<rparr>"

definition ex_conn :: conn where
  "ex_conn = \<lparr>committed = ex_tables, txn = None, journal = []\<rparr>"

definition ex_req :: "int \<Rightarrow> int \<Rightarrow> CreateOrderRequest" where
  "ex_req sessionID n = \<lparr>UserID = 7, ConcertSessionID = sessionID, NumberOfTickets = n\<rparr>"

definition ex_api_req :: "32 word \<Rightarrow> 32 word \<Rightarrow> api_CreateOrderRequest" where
  "ex_api_req sessionID n = \<lparr>UserId = 7, ConcertSessionId = sessionID, api_NumberOfTickets = n\<rparr>"

text \<open>The same database when the update of ticket 3 fails.\<close>

definition ex_env_exec_fails :: env where
  "ex_env_exec_fails =
     ex_env\<lparr>Exec_err := (\<lambda>i. if i = 3 then Some ''driver: bad connection'' else None)\<rparr>"

text \<open>Two callers, one ticket each, on a session with exactly one available ticket.\<close>

definition ex_one_ticket :: tables where
  "ex_one_ticket =
     \<lparr>concert_sessions = [ex_session], tickets = [ex_ticket 1 ''available''], orders = []\<rparr>"

definition ex_caller :: "int \<Rightarrow> caller" where
  "ex_caller k =
     \<lparr>c_env = ex_env\<lparr>serial_id := k\<rparr>,
      c_req = \<lparr>UserID = k, ConcertSessionID = 1, NumberOfTickets = 1\<rparr>,
      c_pc = At_start, c_txn = None, c_journal = []\<rparr>"

definition ex_world :: world where
  "ex_world = \<lparr>w_committed = ex_one_ticket, callers = [ex_caller 1, ex_caller 2]\<rparr>"

section \<open>What a statement leaves alone\<close>

text \<open>Only a successful commit changes the committed tables.\<close>


lemma committed_log_stmt [simp]: "committed (log_stmt q c) = committed c"
  by (simp add: log_stmt_def)

lemma txn_log_stmt [simp]: "txn (log_stmt q c) = txn c"
  by (simp add: log_stmt_def)

lemma journal_log_stmt [simp]: "journal (log_stmt q c) = journal c @ [q]"
  by (simp add: log_stmt_def)

lemma Beginx_committed: "Beginx e c = (r, c') \<Longrightarrow> committed c' = committed c"
  by (auto simp: Beginx_def split: option.splits)

lemma Rollback_committed [simp]: "committed (Rollback c) = committed c"
  by (simp add: Rollback_def)

lemma Commit_failed_committed: "Commit e c = (Some m, c') \<Longrightarrow> committed c' = committed c"
  by (auto simp: Commit_def split: option.splits)

lemma GetConcertSessionByID_committed:
  "GetConcertSessionByID e i c = (r, c') \<Longrightarrow> committed c' = committed c"
  by (auto simp: GetConcertSessionByID_def split: option.splits)

lemma GetAvailableTicketsBySessionID_committed:
  "GetAvailableTicketsBySessionID e i n c = (r, c') \<Longrightarrow> committed c' = committed c"
  by (auto simp: GetAvailableTicketsBySessionID_def split: option.splits if_splits)

lemma OrderRepository_CreateOrder_committed:
  "OrderRepository_CreateOrder e ord c = (r, c') \<Longrightarrow> committed c' = committed c"
  by (auto simp: OrderRepository_CreateOrder_def Let_def split: option.splits)

lemma Exec_update_committed:
  "Exec_update e st i c = (r, c') \<Longrightarrow> committed c' = committed c"
  by (auto simp: Exec_update_def split: option.splits if_splits)

lemma UpdateTicketStatuses_committed:
  "UpdateTicketStatuses e ts st c = (r, c') \<Longrightarrow> committed c' = committed c"
proof (induction ts arbitrary: c)
  case Nil
  then show ?case by simp
next
  case (Cons t ts)
  obtain r1 c1 where x: "Exec_update e st (ID t) c = (r1, c1)"
    by (cases "Exec_update e st (ID t) c")
  have c1: "committed c1 = committed c"
    using x by (rule Exec_update_committed)
  show ?case
  proof (cases r1)
    case None
    with Cons.prems x have "UpdateTicketStatuses e ts st c1 = (r, c')" by simp
    then have "committed c' = committed c1" by (rule Cons.IH)
    with c1 show ?thesis by simp
  next
    case (Some m)
    with Cons.prems x have "c' = c1" by simp
    with c1 show ?thesis by simp
  qed
qed

lemma CreateOrder_fn_committed:
  "CreateOrder_fn e req c = (r, c') \<Longrightarrow> committed c' = committed c"
  unfolding CreateOrder_fn_def
  by (auto split: prod.splits sum.splits option.splits if_splits
      dest!: GetConcertSessionByID_committed GetAvailableTicketsBySessionID_committed
        OrderRepository_CreateOrder_committed UpdateTicketStatuses_committed)

lemma WithTransaction_failed_committed:
  assumes "WithTransaction e fn c = (Inl m, c')"
    and "\<And>c1 r c2. fn c1 = (r, c2) \<Longrightarrow> committed c2 = committed c1"
  shows "committed c' = committed c"
  using assms(1) unfolding WithTransaction_def
  by (auto split: prod.splits sum.splits option.splits
      dest!: Beginx_committed Commit_failed_committed assms(2))

lemma CreateOrder_failed_committed:
  "CreateOrder e r c = (Inl m, c') \<Longrightarrow> committed c' = committed c"
  unfolding CreateOrder_def
  by (auto split: option.splits if_splits prod.splits sum.splits
      dest!: WithTransaction_failed_committed [OF _ CreateOrder_fn_committed])

lemma GRPCHandler_CreateOrder_failed_committed:
  "GRPCHandler_CreateOrder f e q c = (Inl x, c') \<Longrightarrow> committed c' = committed c"
  unfolding GRPCHandler_CreateOrder_def
  by (auto split: if_splits prod.splits sum.splits dest!: CreateOrder_failed_committed)

section \<open>Failure leaves the store as it was\<close>

text \<open>
  Claim C3.  Whenever \<^verbatim>\<open>CreateOrder\<close> returns an error, at the service or through the gRPC
  handler, and whatever statement failed (begin, lookup, selection, insert, one of the
  updates, commit), the committed tables after the call are the committed tables before
  it: no order row and no ticket status change persists.
\<close>

theorem CreateOrder_failure_leaves_store:
  "(CreateOrder e r c = (Inl m, c') \<longrightarrow> committed c' = committed c) \<and>
   (GRPCHandler_CreateOrder f e q c = (Inl x, c'') \<longrightarrow> committed c'' = committed c)"
  using CreateOrder_failed_committed GRPCHandler_CreateOrder_failed_committed by blast

text \<open>The update of the second ticket fails after the insert and the first update went
  through; the rollback drops both.\<close>

theorem CreateOrder_failure_leaves_store_witness:
  "fst (CreateOrder ex_env_exec_fails (Some (ex_req 1 2)) ex_conn) = Inl ''driver: bad connection'' \<and>
   journal (snd (CreateOrder ex_env_exec_fails (Some (ex_req 1 2)) ex_conn)) =
     [BEGIN, SELECT_session Pool, SELECT_tickets_for_update Pool, INSERT_order Tx,
      UPDATE_ticket Tx 2, UPDATE_ticket Tx 3, ROLLBACK] \<and>
   committed (snd (CreateOrder ex_env_exec_fails (Some (ex_req 1 2)) ex_conn)) = committed ex_conn"
proof -
  let ?x = "CreateOrder ex_env_exec_fails (Some (ex_req 1 2)) ex_conn"
  have a: "fst ?x = Inl ''driver: bad connection''"
    by code_simp
  have b: "journal (snd ?x) =
     [BEGIN, SELECT_session Pool, SELECT_tickets_for_update Pool, INSERT_order Tx,
      UPDATE_ticket Tx 2, UPDATE_ticket Tx 3, ROLLBACK]"
    by code_simp
  from a have "?x = (Inl ''driver: bad connection'', snd ?x)"
    by (metis prod.collapse)
  with CreateOrder_failure_leaves_store
    [of ex_env_exec_fails "Some (ex_req 1 2)" ex_conn "''driver: bad connection''" "snd ?x"]
  have "committed (snd ?x) = committed ex_conn" by blast
  with a b show ?thesis by blast
qed

section \<open>Quantity out of range\<close>

text \<open>
  Claim C5.  A request whose quantity is zero, negative or above three is answered with
  \<^verbatim>\<open>InvalidArgument\<close> and the connection is returned as it was: the same committed tables,
  no transaction opened and no statement in the journal, so nothing was sent to the
  database.  The service's own check classifies the same way.
\<close>

theorem CreateOrder_quantity_out_of_range:
  "(sint (api_NumberOfTickets q) \<le> 0 \<or> 3 < sint (api_NumberOfTickets q) \<longrightarrow>
      (\<exists>msg. GRPCHandler_CreateOrder f e q c = (Inl (InvalidArgument, msg), c))) \<and>
   (NumberOfTickets req \<le> 0 \<or> 3 < NumberOfTickets req \<longrightarrow>
      (\<exists>m. CreateOrder e (Some req) c = (Inl m, c) \<and> fst (status_of_error m) = InvalidArgument))"
  by (auto simp: GRPCHandler_CreateOrder_def CreateOrder_def status_of_error_def)

theorem CreateOrder_quantity_out_of_range_witness:
  "(\<forall>f. \<exists>msg. GRPCHandler_CreateOrder f ex_env_exec_fails (ex_api_req 1 4) ex_conn =
            (Inl (InvalidArgument, msg), ex_conn)) \<and>
   (\<forall>f. \<exists>msg. GRPCHandler_CreateOrder f ex_env (ex_api_req 1 0) ex_conn =
            (Inl (InvalidArgument, msg), ex_conn)) \<and>
   (\<forall>f. \<exists>msg. GRPCHandler_CreateOrder f ex_env (ex_api_req 1 (- 1)) ex_conn =
            (Inl (InvalidArgument, msg), ex_conn)) \<and>
   (\<exists>m. CreateOrder ex_env (Some (ex_req 1 4)) ex_conn = (Inl m, ex_conn) \<and>
        fst (status_of_error m) = InvalidArgument)"
proof -
  have a: "3 < sint (api_NumberOfTickets (ex_api_req 1 4))"
    by (simp add: ex_api_req_def)
  have b: "sint (api_NumberOfTickets (ex_api_req 1 0)) \<le> 0"
    by (simp add: ex_api_req_def)
  have c: "sint (api_NumberOfTickets (ex_api_req 1 (- 1))) \<le> 0"
    by (simp add: ex_api_req_def)
  have d: "3 < NumberOfTickets (ex_req 1 4)"
    by (simp add: ex_req_def)
  show ?thesis
    using a b c d
      CreateOrder_quantity_out_of_range [of "ex_api_req 1 4" _ ex_env_exec_fails ex_conn "ex_req 1 4"]
      CreateOrder_quantity_out_of_range [of "ex_api_req 1 0" _ ex_env ex_conn "ex_req 1 4"]
      CreateOrder_quantity_out_of_range [of "ex_api_req 1 (- 1)" _ ex_env ex_conn "ex_req 1 4"]
    by blast
qed

section \<open>Unknown session\<close>

lemma find_absent: "i \<notin> f ` set xs \<Longrightarrow> find (\<lambda>s. f s = i) xs = None"
  by (induction xs) auto

text \<open>
  Claim C6.  A request that passes validation and names a session id that no row of
  \<^verbatim>\<open>concert_sessions\<close> has: when begin and the lookup go through, the answer is
  \<^verbatim>\<open>NotFound\<close> after exactly one read, and the transaction is rolled back; whatever the
  database does, the call fails and the committed tables are unchanged.
\<close>

theorem CreateOrder_session_not_found:
  assumes "0 < sint (UserId q)" and "0 < sint (ConcertSessionId q)"
    and "0 < sint (api_NumberOfTickets q)" and "sint (api_NumberOfTickets q) \<le> 3"
    and "sint (ConcertSessionId q) \<notin> db_ID ` set (concert_sessions (committed c))"
  shows "(Beginx_err e = None \<and> Get_err e = None \<longrightarrow>
            GRPCHandler_CreateOrder f e q c =
              (Inl (NotFound, ''concert session not found''),
               c\<lparr>txn := None, journal := journal c @ [BEGIN, SELECT_session Pool, ROLLBACK]\<rparr>)) \<and>
         (\<exists>x c'. GRPCHandler_CreateOrder f e q c = (Inl x, c') \<and> committed c' = committed c)"
proof -
  have nf: "find (\<lambda>s. db_ID s = sint (ConcertSessionId q)) (concert_sessions (committed c)) = None"
    using assms(5) by (rule find_absent)
  have v: "\<not> sint (UserId q) \<le> 0" "\<not> sint (ConcertSessionId q) \<le> 0"
    "\<not> sint (api_NumberOfTickets q) \<le> 0" "\<not> 3 < sint (api_NumberOfTickets q)"
    using assms(1-4) by simp_all
  have fn: "CreateOrder_fn e r1 c1 = 
      (case Get_err e of Some m \<Rightarrow> (Inl m, log_stmt (SELECT_session Pool) c1)
       | None \<Rightarrow> (Inl ''concert session not found'', log_stmt (SELECT_session Pool) c1))"
    if "ConcertSessionID r1 = sint (ConcertSessionId q)" and "committed c1 = committed c" for r1 c1
    using that nf by (simp add: CreateOrder_fn_def GetConcertSessionByID_def split: option.splits)
  show ?thesis
    using v
    by (cases "Beginx_err e"; cases "Get_err e")
      (simp_all add: GRPCHandler_CreateOrder_def CreateOrder_def WithTransaction_def Beginx_def fn
        Rollback_def log_stmt_def status_of_error_def)
qed

theorem CreateOrder_session_not_found_witness:
  "\<forall>f. GRPCHandler_CreateOrder f ex_env (ex_api_req 999 1) ex_conn =
         (Inl (NotFound, ''concert session not found''),
          ex_conn\<lparr>txn := None, journal := journal ex_conn @ [BEGIN, SELECT_session Pool, ROLLBACK]\<rparr>)"
proof -
  have a: "0 < sint (UserId (ex_api_req 999 1))" "0 < sint (ConcertSessionId (ex_api_req 999 1))"
    "0 < sint (api_NumberOfTickets (ex_api_req 999 1))" "sint (api_NumberOfTickets (ex_api_req 999 1)) \<le> 3"
    by (simp_all add: ex_api_req_def)
  have b: "sint (ConcertSessionId (ex_api_req 999 1)) \<notin> db_ID ` set (concert_sessions (committed ex_conn))"
    by (simp add: ex_api_req_def ex_conn_def ex_tables_def ex_session_def)
  have c: "Beginx_err ex_env = None \<and> Get_err ex_env = None"
    by (simp add: ex_env_def)
  show ?thesis
    using CreateOrder_session_not_found [OF a b, of ex_env] c by blast
qed

section \<open>The writes of a transaction\<close>

lemma Exec_update_ok:
  "Exec_update e st i c = (None, c') \<Longrightarrow> txn c = Some ws \<Longrightarrow>
     c' = c\<lparr>txn := Some (ws @ [Update_ticket_status i st]),
            journal := journal c @ [UPDATE_ticket Tx i]\<rparr>"
  by (auto simp: Exec_update_def log_stmt_def split: option.splits if_splits)

lemma Exec_update_failed:
  "Exec_update e st i c = (Some m, c') \<Longrightarrow>
     c' = c\<lparr>journal := journal c @ [UPDATE_ticket Tx i]\<rparr>"
  by (auto simp: Exec_update_def log_stmt_def split: option.splits if_splits)

lemma UpdateTicketStatuses_trace:
  "UpdateTicketStatuses e ts st c = (r, c') \<Longrightarrow> txn c = Some ws \<Longrightarrow>
     \<exists>done rest. ts = done @ rest \<and> (r = None \<longrightarrow> rest = []) \<and>
       c' = c\<lparr>txn := Some (ws @ map (\<lambda>t. Update_ticket_status (ID t) st) done),
              journal := journal c @ map (\<lambda>t. UPDATE_ticket Tx (ID t)) (take (Suc (length done)) ts)\<rparr>"
proof (induction ts arbitrary: c ws)
  case Nil
  then show ?case by simp
next
  case (Cons t ts)
  obtain r1 c1 where x: "Exec_update e st (ID t) c = (r1, c1)"
    by (cases "Exec_update e st (ID t) c")
  show ?case
  proof (cases r1)
    case None
    with x Cons.prems(2) have c1: "c1 = c\<lparr>txn := Some (ws @ [Update_ticket_status (ID t) st]),
            journal := journal c @ [UPDATE_ticket Tx (ID t)]\<rparr>"
      by (simp add: Exec_update_ok)
    from None Cons.prems(1) x have "UpdateTicketStatuses e ts st c1 = (r, c')" by simp
    moreover from c1 have "txn c1 = Some (ws @ [Update_ticket_status (ID t) st])" by simp
    ultimately obtain dn rest where *: "ts = dn @ rest" "r = None \<longrightarrow> rest = []"
      "c' = c1\<lparr>txn := Some ((ws @ [Update_ticket_status (ID t) st]) @ map (\<lambda>t. Update_ticket_status (ID t) st) dn),
              journal := journal c1 @ map (\<lambda>t. UPDATE_ticket Tx (ID t)) (take (Suc (length dn)) ts)\<rparr>"
      using Cons.IH by blast
    have "t # ts = (t # dn) @ rest" using * by simp
    moreover have "c' = c\<lparr>txn := Some (ws @ map (\<lambda>t. Update_ticket_status (ID t) st) (t # dn)),
              journal := journal c @ map (\<lambda>t. UPDATE_ticket Tx (ID t)) (take (Suc (length (t # dn))) (t # ts))\<rparr>"
      using *(3) c1 by simp
    ultimately show ?thesis using *(2) by blast
  next
    case (Some m)
    with Cons.prems(1) x have "r = Some m" "c' = c1" by simp_all
    moreover from Some x have "c1 = c\<lparr>journal := journal c @ [UPDATE_ticket Tx (ID t)]\<rparr>"
      by (simp add: Exec_update_failed)
    ultimately have "t # ts = [] @ (t # ts) \<and> (r = None \<longrightarrow> t # ts = []) \<and>
       c' = c\<lparr>txn := Some (ws @ map (\<lambda>t. Update_ticket_status (ID t) st) []),
              journal := journal c @ map (\<lambda>t. UPDATE_ticket Tx (ID t)) (take (Suc (length ([]::Ticket list))) (t # ts))\<rparr>"
      using Cons.prems(2) by simp
    then show ?thesis by blast
  qed
qed

lemma UpdateTicketStatuses_ok:
  assumes "UpdateTicketStatuses e ts st c = (None, c')" and "txn c = Some ws"
  shows "c' = c\<lparr>txn := Some (ws @ map (\<lambda>t. Update_ticket_status (ID t) st) ts),
                journal := journal c @ map (\<lambda>t. UPDATE_ticket Tx (ID t)) ts\<rparr>"
proof -
  from UpdateTicketStatuses_trace [OF assms]
  obtain dn rest where "ts = dn @ rest" "rest = []"
    "c' = c\<lparr>txn := Some (ws @ map (\<lambda>t. Update_ticket_status (ID t) st) dn),
              journal := journal c @ map (\<lambda>t. UPDATE_ticket Tx (ID t)) (take (Suc (length dn)) ts)\<rparr>"
    by blast
  then show ?thesis by simp
qed

lemma UpdateTicketStatuses_no_txn:
  "txn c = None \<Longrightarrow> UpdateTicketStatuses e ts st c = (r, c') \<Longrightarrow>
     txn c' = None \<and> (r = None \<longrightarrow> ts = [])"
  by (cases ts) (auto simp: Exec_update_def)

lemma fold_update_writes:
  "fold apply_write (map (\<lambda>t. Update_ticket_status (ID t) st) ts) T =
     T\<lparr>tickets := map (\<lambda>r. if ID r \<in> ID ` set ts then r\<lparr>Status := st\<rparr> else r) (tickets T)\<rparr>"
proof (induction ts arbitrary: T)
  case Nil
  then show ?case by simp
next
  case (Cons t ts)
  have "map (\<lambda>r. if ID r \<in> ID ` set ts then r\<lparr>Status := st\<rparr> else r)
          (map (\<lambda>r. if ID r = ID t then r\<lparr>Status := st\<rparr> else r) rows) =
        map (\<lambda>r. if ID r \<in> ID ` set (t # ts) then r\<lparr>Status := st\<rparr> else r) rows" for rows
    by (induction rows) auto
  with Cons.IH show ?case by simp
qed

section \<open>UpdateTicketStatuses changes the status column only\<close>

text \<open>
  Claim C10.  \<^verbatim>\<open>UpdateTicketStatuses\<close> adds to the open transaction one status update for
  each ticket of the list, in order, up to the first failing statement (all of them when
  it returns no error), and touches nothing committed; on a transaction that is already
  done it adds nothing.  On any tables, the effect of
  these updates is: a ticket row whose id is in the updated part of the list gets the
  target status and keeps its id and session; every other ticket row, the sessions and
  the orders stay as they are.
\<close>

theorem UpdateTicketStatuses_frame:
  assumes "UpdateTicketStatuses e ts st c = (r, c')"
  shows "\<exists>done rest. ts = done @ rest \<and> (r = None \<longrightarrow> rest = []) \<and>
           committed c' = committed c \<and>
           txn c' = map_option (\<lambda>ws. ws @ map (\<lambda>t. Update_ticket_status (ID t) st) done) (txn c) \<and>
           (\<forall>T. fold apply_write (map (\<lambda>t. Update_ticket_status (ID t) st) done) T =
                  T\<lparr>tickets := map (\<lambda>row. if ID row \<in> ID ` set done then row\<lparr>Status := st\<rparr> else row)
                                  (tickets T)\<rparr>)"
proof (cases "txn c")
  case None
  from UpdateTicketStatuses_no_txn [OF None assms]
  have "txn c' = None" and "r = None \<longrightarrow> ts = []"
    by simp_all
  moreover have "committed c' = committed c"
    using assms by (rule UpdateTicketStatuses_committed)
  ultimately have "ts = [] @ ts \<and> (r = None \<longrightarrow> ts = []) \<and>
           committed c' = committed c \<and>
           txn c' = map_option (\<lambda>ws. ws @ map (\<lambda>t. Update_ticket_status (ID t) st) []) (txn c) \<and>
           (\<forall>T. fold apply_write (map (\<lambda>t. Update_ticket_status (ID t) st) []) T =
                  T\<lparr>tickets := map (\<lambda>row. if ID row \<in> ID ` set [] then row\<lparr>Status := st\<rparr> else row)
                                  (tickets T)\<rparr>)"
    using None by simp
  then show ?thesis by blast
next
  case (Some ws)
  from UpdateTicketStatuses_trace [OF assms Some]
  obtain dn rest where *: "ts = dn @ rest" "r = None \<longrightarrow> rest = []"
    "c' = c\<lparr>txn := Some (ws @ map (\<lambda>t. Update_ticket_status (ID t) st) dn),
            journal := journal c @ map (\<lambda>t. UPDATE_ticket Tx (ID t)) (take (Suc (length dn)) ts)\<rparr>"
    by blast
  from *(3) Some have "committed c' = committed c"
    and "txn c' = map_option (\<lambda>ws. ws @ map (\<lambda>t. Update_ticket_status (ID t) st) dn) (txn c)"
    by simp_all
  with *(1,2) fold_update_writes [of st dn] show ?thesis by blast
qed

theorem UpdateTicketStatuses_frame_witness:
  "fst (UpdateTicketStatuses ex_env [ex_ticket 2 ''available'', ex_ticket 3 ''available''] ''sold''
          (ex_conn\<lparr>txn := Some []\<rparr>)) = None \<and>
   (\<exists>ws. txn (snd (UpdateTicketStatuses ex_env [ex_ticket 2 ''available'', ex_ticket 3 ''available'']
                     ''sold'' (ex_conn\<lparr>txn := Some []\<rparr>))) = Some ws \<and>
         fold apply_write ws ex_tables =
           ex_tables\<lparr>tickets := [ex_ticket 3 ''sold'', ex_ticket 1 ''pending'', ex_ticket 2 ''sold'']\<rparr>)"
proof -
  let ?ts = "[ex_ticket 2 ''available'', ex_ticket 3 ''available'']"
  let ?c = "ex_conn\<lparr>txn := Some []\<rparr>"
  let ?x = "UpdateTicketStatuses ex_env ?ts ''sold'' ?c"
  have a: "fst ?x = None"
    by code_simp
  then have b: "?x = (None, snd ?x)"
    by (metis prod.collapse)
  from UpdateTicketStatuses_frame [OF b]
  obtain dn rest where *: "?ts = dn @ rest" "rest = []"
    "txn (snd ?x) = map_option (\<lambda>ws. ws @ map (\<lambda>t. Update_ticket_status (ID t) ''sold'') dn) (txn ?c)"
    "\<forall>T. fold apply_write (map (\<lambda>t. Update_ticket_status (ID t) ''sold'') dn) T =
                  T\<lparr>tickets := map (\<lambda>row. if ID row \<in> ID ` set dn then row\<lparr>Status := ''sold''\<rparr> else row)
                                  (tickets T)\<rparr>"
    by blast
  from *(1,2) have dn: "dn = ?ts" by simp
  have "fold apply_write (map (\<lambda>t. Update_ticket_status (ID t) ''sold'') dn) ex_tables =
      ex_tables\<lparr>tickets := [ex_ticket 3 ''sold'', ex_ticket 1 ''pending'', ex_ticket 2 ''sold'']\<rparr>"
    unfolding *(4) [rule_format] dn by (simp add: ex_tables_def ex_ticket_def)
  with *(3) a show ?thesis by simp
qed

section \<open>What a successful call returns and commits\<close>

lemma find_db_ID: "find (\<lambda>s. db_ID s = i) xs = Some s \<Longrightarrow> s \<in> set xs \<and> db_ID s = i"
  by (induction xs) (auto split: if_splits)

lemma CreateOrder_fn_success:
  assumes "CreateOrder_fn e req c = (Inr (ord, tks), c')" and "txn c = Some ws"
  shows "\<exists>s. find (\<lambda>s. db_ID s = ConcertSessionID req) (concert_sessions (committed c)) = Some s \<and>
           0 \<le> NumberOfTickets req \<and>
           tks = take (nat (NumberOfTickets req)) (available_rows (ConcertSessionID req) (committed c)) \<and>
           tks \<noteq> [] \<and>
           ord = \<lparr>Order_ID = serial_id e, Order_CreatedAt = now_ms e, Order_Status = ''pending'',
                  Order_TotalPrice = Mul (NewFromInt (int (length tks))) (db_Price s)\<rparr> \<and>
           c' = c\<lparr>txn := Some (ws @ Insert_order ord # map (\<lambda>t. Update_ticket_status (ID t) ''pending'') tks),
                  journal := journal c @ [SELECT_session Pool, SELECT_tickets_for_update Pool,
                     INSERT_order Tx] @ map (\<lambda>t. UPDATE_ticket Tx (ID t)) tks\<rparr>"
proof -
  from assms(1) obtain s where s: "find (\<lambda>s. db_ID s = ConcertSessionID req) (concert_sessions (committed c)) = Some s"
    and g: "Get_err e = None"
    by (auto simp: CreateOrder_fn_def GetConcertSessionByID_def split: option.splits)
  let ?c1 = "log_stmt (SELECT_session Pool) c"
  have 1: "GetConcertSessionByID e (ConcertSessionID req) c = (Inr (Some (ToConcertSession s)), ?c1)"
    using s g by (simp add: GetConcertSessionByID_def)
  let ?sel = "take (nat (NumberOfTickets req)) (available_rows (ConcertSessionID req) (committed c))"
  let ?c2 = "log_stmt (SELECT_tickets_for_update Pool) ?c1"
  from assms(1) 1 have 2: "GetAvailableTicketsBySessionID e (ConcertSessionID req) (NumberOfTickets req) ?c1 = (Inr ?sel, ?c2)"
    and n: "0 \<le> NumberOfTickets req"
    by (auto simp: CreateOrder_fn_def GetAvailableTicketsBySessionID_def split: option.splits if_splits)
  from assms(1) 1 2 have ne: "?sel \<noteq> []"
    by (auto simp: CreateOrder_fn_def split: if_splits)
  let ?ord = "\<lparr>Order_ID = serial_id e, Order_CreatedAt = now_ms e, Order_Status = ''pending'',
                  Order_TotalPrice = Mul (NewFromInt (int (length ?sel))) (db_Price s)\<rparr>"
  let ?c3 = "(log_stmt (INSERT_order Tx) ?c2)\<lparr>txn := Some (ws @ [Insert_order ?ord])\<rparr>"
  from assms 1 2 ne have 3: "OrderRepository_CreateOrder e
       \<lparr>Order_ID = 0, Order_CreatedAt = 0, Order_Status = ''pending'',
        Order_TotalPrice = Mul (NewFromInt (int (length ?sel))) (cs_Price (ToConcertSession s))\<rparr> ?c2
       = (Inr ?ord, ?c3)"
    by (auto simp: CreateOrder_fn_def OrderRepository_CreateOrder_def ToConcertSession_def Let_def
        split: option.splits if_splits)
  from assms(1) 1 2 ne 3 have 4: "UpdateTicketStatuses e ?sel ''pending'' ?c3 = (None, c')"
    and o: "ord = ?ord" and t: "tks = ?sel"
    by (auto simp: CreateOrder_fn_def split: option.splits if_splits prod.splits)
  have "txn ?c3 = Some (ws @ [Insert_order ?ord])" by simp
  from UpdateTicketStatuses_ok [OF 4 this]
  have "c' = ?c3\<lparr>txn := Some ((ws @ [Insert_order ?ord]) @ map (\<lambda>t. Update_ticket_status (ID t) ''pending'') ?sel),
              journal := journal ?c3 @ map (\<lambda>t. UPDATE_ticket Tx (ID t)) ?sel\<rparr>" .
  then have "c' = c\<lparr>txn := Some (ws @ Insert_order ?ord # map (\<lambda>t. Update_ticket_status (ID t) ''pending'') ?sel),
                  journal := journal c @ [SELECT_session Pool, SELECT_tickets_for_update Pool,
                     INSERT_order Tx] @ map (\<lambda>t. UPDATE_ticket Tx (ID t)) ?sel\<rparr>"
    by (simp add: log_stmt_def)
  with s n ne o t show ?thesis by simp
qed

text \<open>What a successful call returns and commits.\<close>

lemma CreateOrder_success:
  assumes "CreateOrder e (Some req) c = (Inr resp, c')"
  shows "\<exists>s tks ord.
           find (\<lambda>s. db_ID s = ConcertSessionID req) (concert_sessions (committed c)) = Some s \<and>
           0 < NumberOfTickets req \<and> NumberOfTickets req \<le> 3 \<and>
           tks = take (nat (NumberOfTickets req)) (available_rows (ConcertSessionID req) (committed c)) \<and>
           tks \<noteq> [] \<and>
           ord = \<lparr>Order_ID = serial_id e, Order_CreatedAt = now_ms e, Order_Status = ''pending'',
                  Order_TotalPrice = Mul (NewFromInt (int (length tks))) (db_Price s)\<rparr> \<and>
           resp = \<lparr>OrderID = serial_id e, resp_Status = ''pending'',
                   TicketIDs = map (\<lambda>t. uuid_String (ID t)) tks,
                   TotalPrice = Mul (NewFromInt (int (length tks))) (db_Price s),
                   CreatedAt = now_ms e\<rparr> \<and>
           c' = \<lparr>committed =
                   fold apply_write (Insert_order ord # map (\<lambda>t. Update_ticket_status (ID t) ''pending'') tks)
                     (committed c),
                 txn = None,
                 journal = journal c @ [BEGIN, SELECT_session Pool, SELECT_tickets_for_update Pool,
                     INSERT_order Tx] @ map (\<lambda>t. UPDATE_ticket Tx (ID t)) tks @ [COMMIT]\<rparr>"
proof -
  from assms have n: "0 < NumberOfTickets req" "NumberOfTickets req \<le> 3"
    by (auto simp: CreateOrder_def split: if_splits)
  with assms obtain ord tks where w: "WithTransaction e (CreateOrder_fn e req) c = (Inr (ord, tks), c')"
    and r: "resp = \<lparr>OrderID = Order_ID ord, resp_Status = Order_Status ord,
                       TicketIDs = map (\<lambda>t. uuid_String (ID t)) tks,
                       TotalPrice = Order_TotalPrice ord,
                       CreatedAt = Order_CreatedAt ord\<rparr>"
    by (auto simp: CreateOrder_def split: prod.splits sum.splits)
  let ?c1 = "(log_stmt BEGIN c)\<lparr>txn := Some []\<rparr>"
  from w have b: "Beginx e c = (None, ?c1)"
    by (auto simp: WithTransaction_def Beginx_def split: option.splits prod.splits)
  with w obtain c2 where f: "CreateOrder_fn e req ?c1 = (Inr (ord, tks), c2)"
    and cm: "Commit e c2 = (None, c')"
    by (auto simp: WithTransaction_def split: option.splits prod.splits sum.splits)
  have "txn ?c1 = Some []" by simp
  from CreateOrder_fn_success [OF f this]
  obtain s where s: "find (\<lambda>s. db_ID s = ConcertSessionID req) (concert_sessions (committed c)) = Some s"
    and t: "tks = take (nat (NumberOfTickets req)) (available_rows (ConcertSessionID req) (committed c))"
      "tks \<noteq> []"
    and o: "ord = \<lparr>Order_ID = serial_id e, Order_CreatedAt = now_ms e, Order_Status = ''pending'',
                  Order_TotalPrice = Mul (NewFromInt (int (length tks))) (db_Price s)\<rparr>"
    and c2: "c2 = ?c1\<lparr>txn := Some ([] @ Insert_order ord # map (\<lambda>t. Update_ticket_status (ID t) ''pending'') tks),
                  journal := journal ?c1 @ [SELECT_session Pool, SELECT_tickets_for_update Pool,
                     INSERT_order Tx] @ map (\<lambda>t. UPDATE_ticket Tx (ID t)) tks\<rparr>"
    by auto
  from cm c2 have "c' = \<lparr>committed =
                   fold apply_write (Insert_order ord # map (\<lambda>t. Update_ticket_status (ID t) ''pending'') tks)
                     (committed c),
                 txn = None,
                 journal = journal c @ [BEGIN, SELECT_session Pool, SELECT_tickets_for_update Pool,
                     INSERT_order Tx] @ map (\<lambda>t. UPDATE_ticket Tx (ID t)) tks @ [COMMIT]\<rparr>"
    by (auto simp: Commit_def log_stmt_def split: option.splits)
  with s n t o r show ?thesis by simp
qed

lemma GRPCHandler_CreateOrder_success:
  assumes "GRPCHandler_CreateOrder f e q c = (Inr r, c')"
  shows "\<exists>resp. CreateOrder e
                 (Some \<lparr>UserID = sint (UserId q), ConcertSessionID = sint (ConcertSessionId q),
                        NumberOfTickets = sint (api_NumberOfTickets q)\<rparr>) c = (Inr resp, c') \<and>
           r = \<lparr>OrderId = word_of_int (OrderID resp), api_Status = resp_Status resp,
                TicketIds = TicketIDs resp, api_TotalPrice = f (TotalPrice resp),
                api_CreatedAt = \<lparr>Seconds = go_div (CreatedAt resp) 1000, Nanos = 0\<rparr>\<rparr>"
  using assms unfolding GRPCHandler_CreateOrder_def
  by (auto split: if_splits prod.splits sum.splits)

lemma available_rows_set:
  "set (available_rows i T) =
     {t \<in> set (tickets T). SessionID t = i \<and> Status t = ''available''}"
  by (auto simp: available_rows_def)

lemma available_rows_sorted: "sorted (map ID (available_rows i T))"
  by (simp add: available_rows_def)

section \<open>Selection order\<close>

text \<open>
  Claim C8.  In a successful call the tickets handed out are the first
  \<^verbatim>\<open>NumberOfTickets\<close> rows of the list of all rows of the requested session that are in
  state available in the committed tables, that list being in ascending order of id; the
  ticket identifiers of the response are the ids of exactly these rows, in that order.
\<close>

theorem CreateOrder_selection_order:
  assumes "CreateOrder e (Some req) c = (Inr resp, c')"
  shows "\<exists>sel rest.
           available_rows (ConcertSessionID req) (committed c) = sel @ rest \<and>
           sorted (map ID (sel @ rest)) \<and>
           set (sel @ rest) =
             {t \<in> set (tickets (committed c)).
                SessionID t = ConcertSessionID req \<and> Status t = ''available''} \<and>
           sel = take (nat (NumberOfTickets req))
                   (available_rows (ConcertSessionID req) (committed c)) \<and>
           TicketIDs resp = map (\<lambda>t. uuid_String (ID t)) sel"
proof -
  let ?av = "available_rows (ConcertSessionID req) (committed c)"
  let ?n = "nat (NumberOfTickets req)"
  from CreateOrder_success [OF assms]
  have ids: "TicketIDs resp = map (\<lambda>t. uuid_String (ID t)) (take ?n ?av)"
    by auto
  have "?av = take ?n ?av @ drop ?n ?av"
    by simp
  moreover have "sorted (map ID (take ?n ?av @ drop ?n ?av))"
    using available_rows_sorted [of "ConcertSessionID req" "committed c"] by simp
  moreover have "set (take ?n ?av @ drop ?n ?av) =
      {t \<in> set (tickets (committed c)).
                SessionID t = ConcertSessionID req \<and> Status t = ''available''}"
    using available_rows_set [of "ConcertSessionID req" "committed c"] by simp
  ultimately show ?thesis using ids by blast
qed

theorem CreateOrder_selection_order_witness:
  "\<exists>c'. CreateOrder ex_env (Some (ex_req 1 2)) ex_conn =
          (Inr \<lparr>OrderID = 1, resp_Status = ''pending'',
                TicketIDs = map (\<lambda>t. uuid_String (ID t))
                              [ex_ticket 2 ''available'', ex_ticket 3 ''available''],
                TotalPrice = \<lparr>dvalue = 19998, dexp = - 2\<rparr>, CreatedAt = 1700000000123\<rparr>, c')"
proof -
  let ?x = "CreateOrder ex_env (Some (ex_req 1 2)) ex_conn"
  have av: "available_rows (ConcertSessionID (ex_req 1 2)) (committed ex_conn) =
      [ex_ticket 2 ''available'', ex_ticket 3 ''available'']"
    by code_simp
  have a: "fst ?x = Inr \<lparr>OrderID = 1, resp_Status = ''pending'',
                TicketIDs = TicketIDs (projr (fst ?x)),
                TotalPrice = \<lparr>dvalue = 19998, dexp = - 2\<rparr>, CreatedAt = 1700000000123\<rparr>"
    by code_simp
  then have b: "?x = (Inr \<lparr>OrderID = 1, resp_Status = ''pending'',
                TicketIDs = TicketIDs (projr (fst ?x)),
                TotalPrice = \<lparr>dvalue = 19998, dexp = - 2\<rparr>, CreatedAt = 1700000000123\<rparr>, snd ?x)"
    by (metis prod.collapse)
  from CreateOrder_selection_order [OF b]
  obtain sel rest where *: "available_rows (ConcertSessionID (ex_req 1 2)) (committed ex_conn) = sel @ rest"
    "sel = take (nat (NumberOfTickets (ex_req 1 2)))
             (available_rows (ConcertSessionID (ex_req 1 2)) (committed ex_conn))"
    "TicketIDs (projr (fst ?x)) = map (\<lambda>t. uuid_String (ID t)) sel"
    by auto
  from *(2) av have "sel = [ex_ticket 2 ''available'', ex_ticket 3 ''available'']"
    by (simp add: ex_req_def)
  with *(3) b show ?thesis by (metis)
qed

section \<open>The buyer\<close>

lemma orders_fold_update_writes:
  "orders (fold apply_write (map (\<lambda>t. Update_ticket_status (ID t) st) ts) T) = orders T"
  by (simp add: fold_update_writes)

lemma CreateOrder_fn_cong:
  assumes "ConcertSessionID r1 = ConcertSessionID r2" and "NumberOfTickets r1 = NumberOfTickets r2"
  shows "CreateOrder_fn e r1 c = CreateOrder_fn e r2 c"
  unfolding CreateOrder_fn_def assms ..

lemma CreateOrder_cong:
  assumes "ConcertSessionID r1 = ConcertSessionID r2" and "NumberOfTickets r1 = NumberOfTickets r2"
  shows "CreateOrder e (Some r1) c = CreateOrder e (Some r2) c"
proof -
  have "CreateOrder_fn e r1 = CreateOrder_fn e r2"
    using CreateOrder_fn_cong [OF assms] by (rule ext)
  then show ?thesis
    by (simp add: CreateOrder_def assms)
qed

text \<open>
  Claim C9.  The service's result and final state do not depend on the user id of the
  request; through the handler the same holds for any two positive user ids (the handler
  writes the user id to the log only).  A successful call adds one row to the orders
  table, made of the generated id and creation time, the status pending and the total
  price: the row has no column for the buyer.
\<close>

theorem CreateOrder_buyer_independent:
  "CreateOrder e (Some (req\<lparr>UserID := a\<rparr>)) c = CreateOrder e (Some (req\<lparr>UserID := b\<rparr>)) c \<and>
   (0 < sint u \<and> 0 < sint v \<longrightarrow>
      GRPCHandler_CreateOrder f e (q\<lparr>UserId := u\<rparr>) c =
      GRPCHandler_CreateOrder f e (q\<lparr>UserId := v\<rparr>) c) \<and>
   (CreateOrder e (Some req) c = (Inr resp, c') \<longrightarrow>
      orders (committed c') =
        orders (committed c) @
          [\<lparr>Order_ID = OrderID resp, Order_CreatedAt = CreatedAt resp,
            Order_Status = ''pending'', Order_TotalPrice = TotalPrice resp\<rparr>])"
proof -
  have 1: "CreateOrder e (Some (req\<lparr>UserID := a\<rparr>)) c = CreateOrder e (Some (req\<lparr>UserID := b\<rparr>)) c"
    by (rule CreateOrder_cong) simp_all
  have svc: "CreateOrder e (Some \<lparr>UserID = x, ConcertSessionID = i, NumberOfTickets = n\<rparr>) c =
      CreateOrder e (Some \<lparr>UserID = y, ConcertSessionID = i, NumberOfTickets = n\<rparr>) c" for x y i n
    by (rule CreateOrder_cong) simp_all
  have 2: "GRPCHandler_CreateOrder f e (q\<lparr>UserId := u\<rparr>) c =
      GRPCHandler_CreateOrder f e (q\<lparr>UserId := v\<rparr>) c" if "0 < sint u" "0 < sint v"
    using that
    by (simp add: GRPCHandler_CreateOrder_def
        svc [of "sint u" "sint (ConcertSessionId q)" "sint (api_NumberOfTickets q)" "sint v"])
  have 3: "orders (committed c') =
        orders (committed c) @
          [\<lparr>Order_ID = OrderID resp, Order_CreatedAt = CreatedAt resp,
            Order_Status = ''pending'', Order_TotalPrice = TotalPrice resp\<rparr>]"
    if "CreateOrder e (Some req) c = (Inr resp, c')"
    using CreateOrder_success [OF that] by (auto simp: orders_fold_update_writes)
  from 1 2 3 show ?thesis by blast
qed

theorem CreateOrder_buyer_independent_witness:
  "(\<forall>f. GRPCHandler_CreateOrder f ex_env ((ex_api_req 1 2)\<lparr>UserId := 7\<rparr>) ex_conn =
        GRPCHandler_CreateOrder f ex_env ((ex_api_req 1 2)\<lparr>UserId := 8\<rparr>) ex_conn) \<and>
   orders (committed (snd (CreateOrder ex_env (Some (ex_req 1 2)) ex_conn))) =
     [\<lparr>Order_ID = 1, Order_CreatedAt = 1700000000123, Order_Status = ''pending'',
       Order_TotalPrice = \<lparr>dvalue = 19998, dexp = - 2\<rparr>\<rparr>]"
proof -
  let ?x = "CreateOrder ex_env (Some (ex_req 1 2)) ex_conn"
  have p: "0 < sint (7 :: 32 word) \<and> 0 < sint (8 :: 32 word)"
    by simp
  have a: "fst ?x = Inr \<lparr>OrderID = 1, resp_Status = ''pending'',
                TicketIDs = TicketIDs (projr (fst ?x)),
                TotalPrice = \<lparr>dvalue = 19998, dexp = - 2\<rparr>, CreatedAt = 1700000000123\<rparr>"
    by code_simp
  then have b: "?x = (Inr \<lparr>OrderID = 1, resp_Status = ''pending'',
                TicketIDs = TicketIDs (projr (fst ?x)),
                TotalPrice = \<lparr>dvalue = 19998, dexp = - 2\<rparr>, CreatedAt = 1700000000123\<rparr>, snd ?x)"
    by (metis prod.collapse)
  have o: "orders (committed ex_conn) = []"
    by (simp add: ex_conn_def ex_tables_def)
  note t = CreateOrder_buyer_independent [where e = ex_env and req = "ex_req 1 2" and a = 7 and b = 8
      and c = ex_conn and u = 7 and v = 8 and q = "ex_api_req 1 2" and c' = "snd ?x"]
  from t p have "\<forall>f. GRPCHandler_CreateOrder f ex_env ((ex_api_req 1 2)\<lparr>UserId := 7\<rparr>) ex_conn =
        GRPCHandler_CreateOrder f ex_env ((ex_api_req 1 2)\<lparr>UserId := 8\<rparr>) ex_conn"
    by blast
  moreover from t b o have "orders (committed (snd ?x)) =
     [\<lparr>Order_ID = 1, Order_CreatedAt = 1700000000123, Order_Status = ''pending'',
       Order_TotalPrice = \<lparr>dvalue = 19998, dexp = - 2\<rparr>\<rparr>]"
    by simp
  ultimately show ?thesis by blast
qed

section \<open>The total price\<close>

text \<open>No float64 has the value 99.99: 9999/100 is not an integer times or over a power of
  two.\<close>

lemma five_not_dvd_pow2: "\<not> (5::int) dvd 2 ^ k"
proof (induction k)
  case 0
  then show ?case by simp
next
  case (Suc k)
  have "coprime (5::int) 2"
    by (simp add: coprime_iff_gcd_eq_1 gcd_non_0_int)
  then have "(5::int) dvd 2 * 2 ^ k \<longleftrightarrow> (5::int) dvd 2 ^ k"
    by (rule coprime_dvd_mult_right_iff)
  with Suc show ?case by simp
qed

lemma not_dyadic_9999: "(m::int) * 100 \<noteq> 9999 * 2 ^ k"
proof
  assume eq: "m * 100 = 9999 * 2 ^ k"
  have "(5::int) dvd m * 100" by simp
  with eq have "(5::int) dvd 9999 * 2 ^ k" by simp
  moreover have "coprime (5::int) 9999"
    by (simp add: coprime_iff_gcd_eq_1 gcd_non_0_int)
  ultimately have "(5::int) dvd 2 ^ k"
    by (simp add: coprime_dvd_mult_right_iff)
  with five_not_dvd_pow2 show False by blast
qed

lemma float64_not_9999: "float64_val x \<noteq> Some (9999 / 100)"
proof (cases x)
  case (Finite m e)
  show ?thesis
  proof (cases "0 \<le> e")
    case True
    have "(of_int m :: rat) * 2 ^ nat e \<noteq> 9999 / 100"
    proof
      assume "(of_int m :: rat) * 2 ^ nat e = 9999 / 100"
      then have "(of_int (m * 2 ^ nat e * 100) :: rat) = of_int 9999"
        by simp
      then have "m * 2 ^ nat e * 100 = 9999"
        by (simp only: of_int_eq_iff)
      then have "(100::int) dvd 9999"
        by (metis dvd_triv_right)
      then show False by simp
    qed
    with Finite True show ?thesis by simp
  next
    case False
    have "(of_int m :: rat) / 2 ^ nat (- e) \<noteq> 9999 / 100"
    proof
      assume "(of_int m :: rat) / 2 ^ nat (- e) = 9999 / 100"
      then have "(of_int (m * 100) :: rat) = of_int (9999 * 2 ^ nat (- e))"
        by (simp add: field_simps)
      then have "m * 100 = 9999 * 2 ^ nat (- e)"
        by (simp only: of_int_eq_iff)
      with not_dyadic_9999 show False by blast
    qed
    with Finite False show ?thesis by simp
  qed
qed simp_all

lemma Decimal_val_Mul_NewFromInt:
  "Decimal_val (Mul (NewFromInt n) p) = of_int n * Decimal_val p"
  by (simp add: Decimal_val_def Mul_def NewFromInt_def)


lemma CreateOrder_success_total_selected:
  assumes "CreateOrder e (Some req) c = (Inr resp, c')"
  shows "\<exists>s. find (\<lambda>s. db_ID s = ConcertSessionID req) (concert_sessions (committed c)) = Some s \<and>
           0 < NumberOfTickets req \<and>
           TotalPrice resp =
             Mul (NewFromInt (int (length (take (nat (NumberOfTickets req))
                                     (available_rows (ConcertSessionID req) (committed c))))))
               (db_Price s)"
  using CreateOrder_success [OF assms] by (elim exE conjE) simp

text \<open>
  Claim C4 as stated fails.  One ticket at 99.99: the call succeeds and the handler's
  response carries the total as a float64.  Whatever \<^verbatim>\<open>InexactFloat64\<close> returns, its value is not quantity times unit price.
\<close>

theorem handler_total_is_a_float_counterexample:
  "\<forall>f. \<exists>r c'. GRPCHandler_CreateOrder f ex_env (ex_api_req 1 1) ex_conn = (Inr r, c') \<and>
          float64_val (api_TotalPrice r) \<noteq>
            Some (of_int (sint (api_NumberOfTickets (ex_api_req 1 1))) *
                  Decimal_val (db_Price ex_session))"
proof
  fix f
  let ?req = "\<lparr>UserID = 7, ConcertSessionID = 1, NumberOfTickets = 1\<rparr>"
  let ?x = "CreateOrder ex_env (Some ?req) ex_conn"
  have "fst ?x = Inr \<lparr>OrderID = 1, resp_Status = ''pending'',
                TicketIDs = [''00000000-0000-0000-0000-000000000002''],
                TotalPrice = \<lparr>dvalue = 9999, dexp = - 2\<rparr>, CreatedAt = 1700000000123\<rparr>"
    by code_simp
  then obtain c1 where svc: "?x = (Inr \<lparr>OrderID = 1, resp_Status = ''pending'',
                TicketIDs = [''00000000-0000-0000-0000-000000000002''],
                TotalPrice = \<lparr>dvalue = 9999, dexp = - 2\<rparr>, CreatedAt = 1700000000123\<rparr>, c1)"
    by (metis prod.collapse)
  have h: "GRPCHandler_CreateOrder f ex_env (ex_api_req 1 1) ex_conn =
      (Inr \<lparr>OrderId = 1, api_Status = ''pending'',
            TicketIds = [''00000000-0000-0000-0000-000000000002''],
            api_TotalPrice = f \<lparr>dvalue = 9999, dexp = - 2\<rparr>,
            api_CreatedAt = \<lparr>Seconds = 1700000000, Nanos = 0\<rparr>\<rparr>, c1)"
    by (simp add: GRPCHandler_CreateOrder_def ex_api_req_def svc go_div_def)
  have eq: "of_int (sint (api_NumberOfTickets (ex_api_req 1 1))) * Decimal_val (db_Price ex_session) =
      (9999 / 100 :: rat)"
    by (simp add: ex_api_req_def ex_session_def Decimal_val_def)
  have "float64_val (api_TotalPrice
          \<lparr>OrderId = 1, api_Status = ''pending'',
            TicketIds = [''00000000-0000-0000-0000-000000000002''],
            api_TotalPrice = f \<lparr>dvalue = 9999, dexp = - 2\<rparr>,
            api_CreatedAt = \<lparr>Seconds = 1700000000, Nanos = 0\<rparr>\<rparr>) \<noteq>
        Some (of_int (sint (api_NumberOfTickets (ex_api_req 1 1))) *
              Decimal_val (db_Price ex_session))"
    unfolding eq using float64_not_9999 [of "f \<lparr>dvalue = 9999, dexp = - 2\<rparr>"] by simp
  with h show "\<exists>r c'. GRPCHandler_CreateOrder f ex_env (ex_api_req 1 1) ex_conn = (Inr r, c') \<and>
          float64_val (api_TotalPrice r) \<noteq>
            Some (of_int (sint (api_NumberOfTickets (ex_api_req 1 1))) *
                  Decimal_val (db_Price ex_session))"
    by blast
qed

text \<open>
  Claim C4, amended.  In a successful call for which the session has at least as many
  available tickets as were asked for, the total price the service computes is quantity
  times the unit price of the session, by multiplying the integer coefficients and adding
  the exponents of ten, so the number it stands for is exactly that product.  The handler
  returns this exact total passed through \<^verbatim>\<open>InexactFloat64\<close>, a float64.
\<close>

theorem CreateOrder_total_price:
  "(CreateOrder e (Some req) c = (Inr resp, c') \<and>
    nat (NumberOfTickets req) \<le> length (available_rows (ConcertSessionID req) (committed c)) \<longrightarrow>
      (\<exists>s. find (\<lambda>s. db_ID s = ConcertSessionID req) (concert_sessions (committed c)) = Some s \<and>
           TotalPrice resp = Mul (NewFromInt (NumberOfTickets req)) (db_Price s) \<and>
           Decimal_val (TotalPrice resp) = of_int (NumberOfTickets req) * Decimal_val (db_Price s))) \<and>
   (GRPCHandler_CreateOrder f e q c = (Inr r, c'') \<and>
    nat (sint (api_NumberOfTickets q)) \<le>
      length (available_rows (sint (ConcertSessionId q)) (committed c)) \<longrightarrow>
      (\<exists>s. find (\<lambda>s. db_ID s = sint (ConcertSessionId q)) (concert_sessions (committed c)) = Some s \<and>
           api_TotalPrice r = f (Mul (NewFromInt (sint (api_NumberOfTickets q))) (db_Price s)) \<and>
           Decimal_val (Mul (NewFromInt (sint (api_NumberOfTickets q))) (db_Price s)) =
             of_int (sint (api_NumberOfTickets q)) * Decimal_val (db_Price s)))"
proof -
  have 1: "\<exists>s. find (\<lambda>s. db_ID s = ConcertSessionID req) (concert_sessions (committed c)) = Some s \<and>
           TotalPrice resp = Mul (NewFromInt (NumberOfTickets req)) (db_Price s) \<and>
           Decimal_val (TotalPrice resp) = of_int (NumberOfTickets req) * Decimal_val (db_Price s)"
    if ok: "CreateOrder e (Some req) c = (Inr resp, c')"
      and enough: "nat (NumberOfTickets req) \<le>
        length (available_rows (ConcertSessionID req) (committed c))"
    for req resp c'
  proof -
    from CreateOrder_success_total_selected [OF ok]
    obtain s where s: "find (\<lambda>s. db_ID s = ConcertSessionID req) (concert_sessions (committed c)) = Some s"
      and n: "0 < NumberOfTickets req"
      and tot: "TotalPrice resp =
             Mul (NewFromInt (int (length (take (nat (NumberOfTickets req))
                                     (available_rows (ConcertSessionID req) (committed c))))))
               (db_Price s)"
      by blast
    from enough n have "int (length (take (nat (NumberOfTickets req))
                                     (available_rows (ConcertSessionID req) (committed c)))) =
        NumberOfTickets req"
      by simp
    with tot have t: "TotalPrice resp = Mul (NewFromInt (NumberOfTickets req)) (db_Price s)"
      by simp
    then have "Decimal_val (TotalPrice resp) = of_int (NumberOfTickets req) * Decimal_val (db_Price s)"
      by (simp add: Decimal_val_Mul_NewFromInt)
    with s t show ?thesis by blast
  qed
  have 2: "\<exists>s. find (\<lambda>s. db_ID s = sint (ConcertSessionId q)) (concert_sessions (committed c)) = Some s \<and>
           api_TotalPrice r = f (Mul (NewFromInt (sint (api_NumberOfTickets q))) (db_Price s)) \<and>
           Decimal_val (Mul (NewFromInt (sint (api_NumberOfTickets q))) (db_Price s)) =
             of_int (sint (api_NumberOfTickets q)) * Decimal_val (db_Price s)"
    if ok: "GRPCHandler_CreateOrder f e q c = (Inr r, c'')"
      and enough: "nat (sint (api_NumberOfTickets q)) \<le>
        length (available_rows (sint (ConcertSessionId q)) (committed c))"
  proof -
    let ?req = "\<lparr>UserID = sint (UserId q), ConcertSessionID = sint (ConcertSessionId q),
                        NumberOfTickets = sint (api_NumberOfTickets q)\<rparr>"
    from GRPCHandler_CreateOrder_success [OF ok]
    obtain resp where svc: "CreateOrder e (Some ?req) c = (Inr resp, c'')"
      and r: "api_TotalPrice r = f (TotalPrice resp)"
      by auto
    from enough have "nat (NumberOfTickets ?req) \<le>
        length (available_rows (ConcertSessionID ?req) (committed c))"
      by simp
    from 1 [OF svc this]
    obtain s where "find (\<lambda>s. db_ID s = sint (ConcertSessionId q)) (concert_sessions (committed c)) = Some s"
      and "TotalPrice resp = Mul (NewFromInt (sint (api_NumberOfTickets q))) (db_Price s)"
      by auto
    with r show ?thesis
      by (auto simp: Decimal_val_Mul_NewFromInt)
  qed
  from 1 2 show ?thesis by blast
qed

theorem CreateOrder_total_price_witness:
  "nat (NumberOfTickets (ex_req 1 2)) \<le>
     length (available_rows (ConcertSessionID (ex_req 1 2)) (committed ex_conn)) \<and>
   fst (CreateOrder ex_env (Some (ex_req 1 2)) ex_conn) =
     Inr \<lparr>OrderID = 1, resp_Status = ''pending'',
          TicketIDs = [''00000000-0000-0000-0000-000000000002'',
                       ''00000000-0000-0000-0000-000000000003''],
          TotalPrice = \<lparr>dvalue = 19998, dexp = - 2\<rparr>, CreatedAt = 1700000000123\<rparr> \<and>
   \<lparr>dvalue = 19998, dexp = - 2\<rparr> = Mul (NewFromInt 2) (db_Price ex_session) \<and>
   Decimal_val \<lparr>dvalue = 19998, dexp = - 2\<rparr> = 2 * Decimal_val (db_Price ex_session)"
proof -
  let ?x = "CreateOrder ex_env (Some (ex_req 1 2)) ex_conn"
  let ?r = "\<lparr>OrderID = 1, resp_Status = ''pending'',
          TicketIDs = [''00000000-0000-0000-0000-000000000002'',
                       ''00000000-0000-0000-0000-000000000003''],
          TotalPrice = \<lparr>dvalue = 19998, dexp = - 2\<rparr>, CreatedAt = 1700000000123\<rparr>"
  have enough: "nat (NumberOfTickets (ex_req 1 2)) \<le>
     length (available_rows (ConcertSessionID (ex_req 1 2)) (committed ex_conn))"
    by code_simp
  have a: "fst ?x = Inr ?r"
    by code_simp
  then have b: "?x = (Inr ?r, snd ?x)"
    by (metis prod.collapse)
  have f: "find (\<lambda>s. db_ID s = ConcertSessionID (ex_req 1 2)) (concert_sessions (committed ex_conn)) =
      Some ex_session"
    by (simp add: ex_req_def ex_conn_def ex_tables_def ex_session_def)
  have q: "NumberOfTickets (ex_req 1 2) = 2"
    by (simp add: ex_req_def)
  from CreateOrder_total_price [where e = ex_env and req = "ex_req 1 2" and c = ex_conn
      and resp = ?r and c' = "snd ?x", THEN conjunct1, THEN mp, OF conjI, OF b enough]
  obtain s where "find (\<lambda>s. db_ID s = ConcertSessionID (ex_req 1 2)) (concert_sessions (committed ex_conn)) =
      Some s"
    and "TotalPrice ?r = Mul (NewFromInt (NumberOfTickets (ex_req 1 2))) (db_Price s)"
    and "Decimal_val (TotalPrice ?r) = of_int (NumberOfTickets (ex_req 1 2)) * Decimal_val (db_Price s)"
    by blast
  with f q have "\<lparr>dvalue = 19998, dexp = - 2\<rparr> = Mul (NewFromInt 2) (db_Price ex_session)"
    and "Decimal_val \<lparr>dvalue = 19998, dexp = - 2\<rparr> = 2 * Decimal_val (db_Price ex_session)"
    by simp_all
  with enough a show ?thesis by blast
qed

section \<open>Fewer tickets than requested\<close>

text \<open>What holds of every successful call: the status is pending, at least one and at most
  \<^verbatim>\<open>NumberOfTickets\<close> identifiers are returned, and the committed ticket rows are the old
  ones with the selected rows set to pending.\<close>

lemma CreateOrder_success_pending:
  assumes "CreateOrder e (Some req) c = (Inr resp, c')"
  shows "resp_Status resp = ''pending'' \<and> 0 < length (TicketIDs resp) \<and>
         int (length (TicketIDs resp)) \<le> NumberOfTickets req \<and>
         tickets (committed c') =
           map (\<lambda>row. if ID row \<in> ID ` set (take (nat (NumberOfTickets req))
                                    (available_rows (ConcertSessionID req) (committed c)))
                       then row\<lparr>Status := ''pending''\<rparr> else row)
             (tickets (committed c))"
  using CreateOrder_success [OF assms]
  by (elim exE conjE) (simp add: fold_update_writes)

text \<open>
  Claim C2, at a failing input.  The session has two available tickets and three are
  requested.  The selection returns two rows; the only check is for zero rows, so the
  handler answers with an order for two tickets and the order and both status changes are
  committed, where the claim has \<^verbatim>\<open>ResourceExhausted\<close> and nothing reserved.
\<close>

theorem CreateOrder_fewer_than_requested:
  "length (available_rows 1 (committed ex_conn)) = 2 \<and>
   (\<exists>c'. GRPCHandler_CreateOrder f ex_env (ex_api_req 1 3) ex_conn =
           (Inr \<lparr>OrderId = 1, api_Status = ''pending'',
                 TicketIds = [''00000000-0000-0000-0000-000000000002'',
                              ''00000000-0000-0000-0000-000000000003''],
                 api_TotalPrice = f \<lparr>dvalue = 19998, dexp = - 2\<rparr>,
                 api_CreatedAt = \<lparr>Seconds = 1700000000, Nanos = 0\<rparr>\<rparr>, c') \<and>
         committed c' =
           \<lparr>concert_sessions = [ex_session],
            tickets = [ex_ticket 3 ''pending'', ex_ticket 1 ''pending'', ex_ticket 2 ''pending''],
            orders = [\<lparr>Order_ID = 1, Order_CreatedAt = 1700000000123, Order_Status = ''pending'',
                       Order_TotalPrice = \<lparr>dvalue = 19998, dexp = - 2\<rparr>\<rparr>]\<rparr>)"
proof -
  let ?req = "\<lparr>UserID = 7, ConcertSessionID = 1, NumberOfTickets = 3\<rparr>"
  let ?x = "CreateOrder ex_env (Some ?req) ex_conn"
  have n: "length (available_rows 1 (committed ex_conn)) = 2"
    by code_simp
  have "fst ?x = Inr \<lparr>OrderID = 1, resp_Status = ''pending'',
                TicketIDs = [''00000000-0000-0000-0000-000000000002'',
                             ''00000000-0000-0000-0000-000000000003''],
                TotalPrice = \<lparr>dvalue = 19998, dexp = - 2\<rparr>, CreatedAt = 1700000000123\<rparr>"
    by code_simp
  moreover have "committed (snd ?x) =
           \<lparr>concert_sessions = [ex_session],
            tickets = [ex_ticket 3 ''pending'', ex_ticket 1 ''pending'', ex_ticket 2 ''pending''],
            orders = [\<lparr>Order_ID = 1, Order_CreatedAt = 1700000000123, Order_Status = ''pending'',
                       Order_TotalPrice = \<lparr>dvalue = 19998, dexp = - 2\<rparr>\<rparr>]\<rparr>"
    by code_simp
  ultimately obtain c1 where svc: "?x = (Inr \<lparr>OrderID = 1, resp_Status = ''pending'',
                TicketIDs = [''00000000-0000-0000-0000-000000000002'',
                             ''00000000-0000-0000-0000-000000000003''],
                TotalPrice = \<lparr>dvalue = 19998, dexp = - 2\<rparr>, CreatedAt = 1700000000123\<rparr>, c1)"
    and c1: "committed c1 =
           \<lparr>concert_sessions = [ex_session],
            tickets = [ex_ticket 3 ''pending'', ex_ticket 1 ''pending'', ex_ticket 2 ''pending''],
            orders = [\<lparr>Order_ID = 1, Order_CreatedAt = 1700000000123, Order_Status = ''pending'',
                       Order_TotalPrice = \<lparr>dvalue = 19998, dexp = - 2\<rparr>\<rparr>]\<rparr>"
    by (metis prod.collapse)
  have "GRPCHandler_CreateOrder f ex_env (ex_api_req 1 3) ex_conn =
           (Inr \<lparr>OrderId = 1, api_Status = ''pending'',
                 TicketIds = [''00000000-0000-0000-0000-000000000002'',
                              ''00000000-0000-0000-0000-000000000003''],
                 api_TotalPrice = f \<lparr>dvalue = 19998, dexp = - 2\<rparr>,
                 api_CreatedAt = \<lparr>Seconds = 1700000000, Nanos = 0\<rparr>\<rparr>, c1)"
    by (simp add: GRPCHandler_CreateOrder_def ex_api_req_def svc go_div_def)
  with n c1 show ?thesis by blast
qed

text \<open>
  Claim C7, at a failing input.  The same call at the service: the request asks for three
  tickets, the response has status pending and two ticket identifiers, and two rows were
  updated in the transaction.
\<close>

theorem CreateOrder_response_short_of_quantity:
  "NumberOfTickets (ex_req 1 3) = 3 \<and>
   fst (CreateOrder ex_env (Some (ex_req 1 3)) ex_conn) =
     Inr \<lparr>OrderID = 1, resp_Status = ''pending'',
          TicketIDs = [''00000000-0000-0000-0000-000000000002'',
                       ''00000000-0000-0000-0000-000000000003''],
          TotalPrice = \<lparr>dvalue = 19998, dexp = - 2\<rparr>, CreatedAt = 1700000000123\<rparr> \<and>
   journal (snd (CreateOrder ex_env (Some (ex_req 1 3)) ex_conn)) =
     [BEGIN, SELECT_session Pool, SELECT_tickets_for_update Pool, INSERT_order Tx,
      UPDATE_ticket Tx 2, UPDATE_ticket Tx 3, COMMIT]"
proof -
  have "NumberOfTickets (ex_req 1 3) = 3"
    by (simp add: ex_req_def)
  moreover have "fst (CreateOrder ex_env (Some (ex_req 1 3)) ex_conn) =
     Inr \<lparr>OrderID = 1, resp_Status = ''pending'',
          TicketIDs = [''00000000-0000-0000-0000-000000000002'',
                       ''00000000-0000-0000-0000-000000000003''],
          TotalPrice = \<lparr>dvalue = 19998, dexp = - 2\<rparr>, CreatedAt = 1700000000123\<rparr>"
    by code_simp
  moreover have "journal (snd (CreateOrder ex_env (Some (ex_req 1 3)) ex_conn)) =
     [BEGIN, SELECT_session Pool, SELECT_tickets_for_update Pool, INSERT_order Tx,
      UPDATE_ticket Tx 2, UPDATE_ticket Tx 3, COMMIT]"
    by code_simp
  ultimately show ?thesis by blast
qed

section \<open>Callers one after the other and interleaved\<close>

text \<open>Six steps of a caller are \<^verbatim>\<open>CreateOrder\<close>.\<close>

lemma proc_run_CreateOrder:
  "proc_run 6 e req (At_start, c) =
     (Done (fst (CreateOrder e (Some req) c)), snd (CreateOrder e (Some req) c))"
  by (simp add: eval_nat_numeral CreateOrder_def WithTransaction_def CreateOrder_fn_def
      split: prod.splits sum.splits option.splits)


lemma conn_eta: "\<lparr>committed = committed c, txn = txn c, journal = journal c\<rparr> = (c::conn)"
  by simp

lemma step_solo:
  "step 0 \<lparr>w_committed = committed c,
           callers = [\<lparr>c_env = e, c_req = req, c_pc = pc, c_txn = txn c, c_journal = journal c\<rparr>]\<rparr> =
     \<lparr>w_committed = committed (snd (proc_step e req pc c)),
      callers = [\<lparr>c_env = e, c_req = req, c_pc = fst (proc_step e req pc c),
                  c_txn = txn (snd (proc_step e req pc c)),
                  c_journal = journal (snd (proc_step e req pc c))\<rparr>]\<rparr>"
  by (simp add: step_def blocked_def Let_def conn_eta)

lemma run_solo:
  "run (replicate n 0)
     \<lparr>w_committed = committed c,
      callers = [\<lparr>c_env = e, c_req = req, c_pc = pc, c_txn = txn c, c_journal = journal c\<rparr>]\<rparr> =
     \<lparr>w_committed = committed (snd (proc_run n e req (pc, c))),
      callers = [\<lparr>c_env = e, c_req = req, c_pc = fst (proc_run n e req (pc, c)),
                  c_txn = txn (snd (proc_run n e req (pc, c))),
                  c_journal = journal (snd (proc_run n e req (pc, c)))\<rparr>]\<rparr>"
proof (induction n arbitrary: pc c)
  case 0
  then show ?case by simp
next
  case (Suc n)
  show ?case
    using Suc.IH [of "snd (proc_step e req pc c)" "fst (proc_step e req pc c)"]
    by (simp add: step_solo)
qed

text \<open>A caller alone on the database goes through \<^verbatim>\<open>CreateOrder\<close> in six steps.\<close>

lemma run_solo_CreateOrder:
  "run (replicate 6 0)
     \<lparr>w_committed = committed c,
      callers = [\<lparr>c_env = e, c_req = req, c_pc = At_start, c_txn = txn c, c_journal = journal c\<rparr>]\<rparr> =
     \<lparr>w_committed = committed (snd (CreateOrder e (Some req) c)),
      callers = [\<lparr>c_env = e, c_req = req, c_pc = Done (fst (CreateOrder e (Some req) c)),
                  c_txn = txn (snd (CreateOrder e (Some req) c)),
                  c_journal = journal (snd (CreateOrder e (Some req) c))\<rparr>]\<rparr>"
  by (simp only: run_solo proc_run_CreateOrder fst_conv snd_conv)

text \<open>
  Claim C1, at a failing input.  Two callers ask for one ticket each of a session with one
  available ticket.  Both open their transaction and look the session up; both run the
  selection, which goes to the pool and not to the transaction, so the row lock of the
  first ends with its statement and the second reads the same available row; then the
  first inserts, updates and commits, and the second does the same.  Both calls return
  an order holding ticket 1, and two orders are committed against one ticket.  When the
  second caller starts after the first has returned, it gets \<^verbatim>\<open>no tickets available\<close>.
\<close>

theorem concurrent_callers_reserve_same_ticket:
  "map c_pc (callers (run [0, 1, 0, 1, 0, 1, 0, 0, 0, 1, 1, 1] ex_world)) =
     [Done (Inr \<lparr>OrderID = 1, resp_Status = ''pending'',
                 TicketIDs = [''00000000-0000-0000-0000-000000000001''],
                 TotalPrice = \<lparr>dvalue = 9999, dexp = - 2\<rparr>, CreatedAt = 1700000000123\<rparr>),
      Done (Inr \<lparr>OrderID = 2, resp_Status = ''pending'',
                 TicketIDs = [''00000000-0000-0000-0000-000000000001''],
                 TotalPrice = \<lparr>dvalue = 9999, dexp = - 2\<rparr>, CreatedAt = 1700000000123\<rparr>)] \<and>
   w_committed (run [0, 1, 0, 1, 0, 1, 0, 0, 0, 1, 1, 1] ex_world) =
     \<lparr>concert_sessions = [ex_session],
      tickets = [ex_ticket 1 ''pending''],
      orders = [\<lparr>Order_ID = 1, Order_CreatedAt = 1700000000123, Order_Status = ''pending'',
                 Order_TotalPrice = \<lparr>dvalue = 9999, dexp = - 2\<rparr>\<rparr>,
                \<lparr>Order_ID = 2, Order_CreatedAt = 1700000000123, Order_Status = ''pending'',
                 Order_TotalPrice = \<lparr>dvalue = 9999, dexp = - 2\<rparr>\<rparr>]\<rparr> \<and>
   map c_journal (callers (run [0, 1, 0, 1, 0, 1, 0, 0, 0, 1, 1, 1] ex_world)) =
     [[BEGIN, SELECT_session Pool, SELECT_tickets_for_update Pool, INSERT_order Tx,
       UPDATE_ticket Tx 1, COMMIT],
      [BEGIN, SELECT_session Pool, SELECT_tickets_for_update Pool, INSERT_order Tx,
       UPDATE_ticket Tx 1, COMMIT]] \<and>
   map c_pc (callers (run [0, 0, 0, 0, 0, 0, 1, 1, 1, 1, 1, 1] ex_world)) =
     [Done (Inr \<lparr>OrderID = 1, resp_Status = ''pending'',
                 TicketIDs = [''00000000-0000-0000-0000-000000000001''],
                 TotalPrice = \<lparr>dvalue = 9999, dexp = - 2\<rparr>, CreatedAt = 1700000000123\<rparr>),
      Done (Inl ''no tickets available'')]"
proof -
  have "map c_pc (callers (run [0, 1, 0, 1, 0, 1, 0, 0, 0, 1, 1, 1] ex_world)) =
     [Done (Inr \<lparr>OrderID = 1, resp_Status = ''pending'',
                 TicketIDs = [''00000000-0000-0000-0000-000000000001''],
                 TotalPrice = \<lparr>dvalue = 9999, dexp = - 2\<rparr>, CreatedAt = 1700000000123\<rparr>),
      Done (Inr \<lparr>OrderID = 2, resp_Status = ''pending'',
                 TicketIDs = [''00000000-0000-0000-0000-000000000001''],
                 TotalPrice = \<lparr>dvalue = 9999, dexp = - 2\<rparr>, CreatedAt = 1700000000123\<rparr>)]"
    by code_simp
  moreover have "w_committed (run [0, 1, 0, 1, 0, 1, 0, 0, 0, 1, 1, 1] ex_world) =
     \<lparr>concert_sessions = [ex_session],
      tickets = [ex_ticket 1 ''pending''],
      orders = [\<lparr>Order_ID = 1, Order_CreatedAt = 1700000000123, Order_Status = ''pending'',
                 Order_TotalPrice = \<lparr>dvalue = 9999, dexp = - 2\<rparr>\<rparr>,
                \<lparr>Order_ID = 2, Order_CreatedAt = 1700000000123, Order_Status = ''pending'',
                 Order_TotalPrice = \<lparr>dvalue = 9999, dexp = - 2\<rparr>\<rparr>]\<rparr>"
    by code_simp
  moreover have "map c_journal (callers (run [0, 1, 0, 1, 0, 1, 0, 0, 0, 1, 1, 1] ex_world)) =
     [[BEGIN, SELECT_session Pool, SELECT_tickets_for_update Pool, INSERT_order Tx,
       UPDATE_ticket Tx 1, COMMIT],
      [BEGIN, SELECT_session Pool, SELECT_tickets_for_update Pool, INSERT_order Tx,
       UPDATE_ticket Tx 1, COMMIT]]"
    by code_simp
  moreover have "map c_pc (callers (run [0, 0, 0, 0, 0, 0, 1, 1, 1, 1, 1, 1] ex_world)) =
     [Done (Inr \<lparr>OrderID = 1, resp_Status = ''pending'',
                 TicketIDs = [''00000000-0000-0000-0000-000000000001''],
                 TotalPrice = \<lparr>dvalue = 9999, dexp = - 2\<rparr>, CreatedAt = 1700000000123\<rparr>),
      Done (Inl ''no tickets available'')]"
    by code_simp
  ultimately show ?thesis by blast
qed

end
